theory Spec2Isabelle
  imports Main "HOL-Library.Mapping" "HOL-Library.AList_Mapping"
begin

section \<open>Data model of \<open>lxc init\<close> (src/lxc/init.go)\<close>

text \<open>
  Go's \<open>error\<close> values are opaque apart from their message; \<open>fmt.Errorf\<close> builds one from
  a message, and the collaborators (configuration, API client, YAML parser) return
  arbitrary ones.
\<close>

datatype error = Error string

text \<open>
  The API types of \<open>shared/api\<close> and \<open>lxc/config\<close>, with the fields that init.go reads or
  writes. A Go map is a finite \<open>mapping\<close>; a nil map and an empty map both read as
  \<open>Mapping.empty\<close>. A Go slice that may be nil (\<open>Profiles\<close>) is a \<open>string list option\<close>:
  \<open>None\<close> is the nil slice, \<open>Some []\<close> the empty non-nil slice.
\<close>

record Remote =
  Protocol :: string

record Network =
  Type :: string

record ImageAliasesEntry =
  Target :: string

record Image =
  Fingerprint :: string
  Public :: bool

record Instance =
  ExpandedDevices :: "(string, (string, string) mapping) mapping"

record Operation =
  Resources :: "(string, string list) mapping"

record InstanceSource =
  Type :: string
  Alias :: string

record InstancePut =
  Config :: "(string, string) mapping"
  Devices :: "(string, (string, string) mapping) mapping"
  Profiles :: "string list option"
  Ephemeral :: bool

text \<open>\<open>api.InstancesPost\<close> embeds \<open>api.InstancePut\<close>.\<close>

record InstancesPost = InstancePut +
  Name :: string
  Source :: InstanceSource
  InstanceType :: string

record Config =
  Remotes :: "(string, Remote) mapping"
  ParseRemote :: "string \<Rightarrow> error + string \<times> string"

record cmdGlobal =
  conf :: Config
  flagQuiet :: bool

record cmdInit =
  global :: cmdGlobal
  flagConfig :: "string list"
  flagEphemeral :: bool
  flagNetwork :: string
  flagProfile :: "string list"
  flagStorage :: string
  flagTarget :: string
  flagType :: string
  flagNoProfiles :: bool
  flagEmpty :: bool

text \<open>
  Handles of the servers the client talks to: the result of \<open>conf.GetInstanceServer\<close>,
  of \<open>d.UseTarget\<close> and of \<open>conf.GetImageServer\<close>.
\<close>

datatype server =
  InstanceServer string
| UseTarget server string
| ImageServer string

section \<open>Effects: the interaction trace\<close>

text \<open>
  Every call to a collaborator that reaches a remote service is recorded with its
  arguments and its answer, in order, together with what is printed on standard output
  and on the error channel.
\<close>

datatype event =
  GetInstanceServerEv string "error option"
| GetImageServerEv string "error option"
| GetNetworkEv server string "error + Network"
| GetStoragePoolEv server string "error option"
| GetImageAliasEv server string "error + ImageAliasesEntry"
| GetImageEv server string "error + Image"
| CreateInstanceFromImageEv server server Image InstancesPost "error option"
| AddHandlerEv "error option"
| CancelableWaitEv "error option"
| GetTargetEv "error + Operation"
| CreateInstanceEv server InstancesPost "error + Operation"
| GetInstanceEv server string "error + Instance"
| Stdout string
| Stderr string

fun is_remote_call :: "event \<Rightarrow> bool" where
  "is_remote_call (Stdout _) = False"
| "is_remote_call (Stderr _) = False"
| "is_remote_call _ = True"

text \<open>
  The environment of one invocation. The API client (\<open>lxd.InstanceServer\<close>,
  \<open>lxd.ImageServer\<close>, the operations they return), the configuration's \<open>ParseRemote\<close>,
  \<open>cmdGlobal.CheckArgs\<close> and the YAML parser are not part of init.go: they are
  parameters here, and every statement below holds for all of them. The answers of the
  remote services may depend on everything that happened before (the trace so far);
  the standard input, the argument check and the command's usage text are local.
\<close>

record env =
  stdinIsTerminal :: bool
  stdinReadAll :: "error + string"
  yamlUnmarshal :: "string \<Rightarrow> error + InstancePut"
  CheckArgs :: "string list \<Rightarrow> nat \<Rightarrow> nat \<Rightarrow> bool \<times> error option"
  usageText :: string
  getInstanceServer :: "event list \<Rightarrow> string \<Rightarrow> error option"
  getImageServer :: "event list \<Rightarrow> string \<Rightarrow> error option"
  getNetwork :: "event list \<Rightarrow> server \<Rightarrow> string \<Rightarrow> error + Network"
  getStoragePool :: "event list \<Rightarrow> server \<Rightarrow> string \<Rightarrow> error option"
  getImageAlias :: "event list \<Rightarrow> server \<Rightarrow> string \<Rightarrow> error + ImageAliasesEntry"
  getImage :: "event list \<Rightarrow> server \<Rightarrow> string \<Rightarrow> error + Image"
  createInstanceFromImage ::
    "event list \<Rightarrow> server \<Rightarrow> server \<Rightarrow> Image \<Rightarrow> InstancesPost \<Rightarrow> error option"
  addHandler :: "event list \<Rightarrow> error option"
  cancelableWait :: "event list \<Rightarrow> error option"
  getTarget :: "event list \<Rightarrow> error + Operation"
  createInstance :: "event list \<Rightarrow> server \<Rightarrow> InstancesPost \<Rightarrow> error + Operation"
  getInstance :: "event list \<Rightarrow> server \<Rightarrow> string \<Rightarrow> error + Instance"

text \<open>
  A computation reads the trace so far and returns its result (an error or a value)
  with the events it added. An error ends the computation; the events stay.
\<close>

type_synonym 'a prog = "event list \<Rightarrow> (error + 'a) \<times> event list"

definition returnE :: "'a \<Rightarrow> 'a prog" where
  "returnE x = (\<lambda>h. (Inr x, []))"

definition failE :: "error \<Rightarrow> 'a prog" where
  "failE e = (\<lambda>h. (Inl e, []))"

definition liftE :: "error + 'a \<Rightarrow> 'a prog" where
  "liftE r = (\<lambda>h. (r, []))"

definition bindE :: "'a prog \<Rightarrow> ('a \<Rightarrow> 'b prog) \<Rightarrow> 'b prog" where
  "bindE m f = (\<lambda>h.
     case m h of
       (Inl e, w) \<Rightarrow> (Inl e, w)
     | (Inr x, w) \<Rightarrow> (case f x (h @ w) of (r, w') \<Rightarrow> (r, w @ w')))"

definition emit :: "event \<Rightarrow> unit prog" where
  "emit ev = (\<lambda>h. (Inr (), [ev]))"

fun errOf :: "error option \<Rightarrow> error + unit" where
  "errOf None = Inr ()"
| "errOf (Some e) = Inl e"

definition Printf :: "string \<Rightarrow> unit prog" where
  "Printf msg = emit (Stdout msg)"

definition Fprintf_Stderr :: "string \<Rightarrow> unit prog" where
  "Fprintf_Stderr msg = emit (Stderr msg)"

subsection \<open>The collaborators' operations\<close>

definition GetInstanceServer :: "env \<Rightarrow> string \<Rightarrow> server prog" where
  "GetInstanceServer E remote = (\<lambda>h.
     let r = getInstanceServer E h remote
     in (case r of None \<Rightarrow> Inr (InstanceServer remote) | Some e \<Rightarrow> Inl e,
         [GetInstanceServerEv remote r]))"

definition GetImageServer :: "env \<Rightarrow> string \<Rightarrow> server prog" where
  "GetImageServer E iremote = (\<lambda>h.
     let r = getImageServer E h iremote
     in (case r of None \<Rightarrow> Inr (ImageServer iremote) | Some e \<Rightarrow> Inl e,
         [GetImageServerEv iremote r]))"

definition GetNetwork :: "env \<Rightarrow> server \<Rightarrow> string \<Rightarrow> Network prog" where
  "GetNetwork E d n = (\<lambda>h. let r = getNetwork E h d n in (r, [GetNetworkEv d n r]))"

definition GetStoragePool :: "env \<Rightarrow> server \<Rightarrow> string \<Rightarrow> unit prog" where
  "GetStoragePool E d n =
     (\<lambda>h. let r = getStoragePool E h d n in (errOf r, [GetStoragePoolEv d n r]))"

definition GetImageAlias :: "env \<Rightarrow> server \<Rightarrow> string \<Rightarrow> ImageAliasesEntry prog" where
  "GetImageAlias E d n =
     (\<lambda>h. let r = getImageAlias E h d n in (r, [GetImageAliasEv d n r]))"

definition GetImage :: "env \<Rightarrow> server \<Rightarrow> string \<Rightarrow> Image prog" where
  "GetImage E d n = (\<lambda>h. let r = getImage E h d n in (r, [GetImageEv d n r]))"

definition CreateInstanceFromImage ::
    "env \<Rightarrow> server \<Rightarrow> server \<Rightarrow> Image \<Rightarrow> InstancesPost \<Rightarrow> unit prog" where
  "CreateInstanceFromImage E d imgRemote imgInfo req = (\<lambda>h.
     let r = createInstanceFromImage E h d imgRemote imgInfo req
     in (errOf r, [CreateInstanceFromImageEv d imgRemote imgInfo req r]))"

definition AddHandler :: "env \<Rightarrow> unit prog" where
  "AddHandler E = (\<lambda>h. let r = addHandler E h in (errOf r, [AddHandlerEv r]))"

definition CancelableWait :: "env \<Rightarrow> unit prog" where
  "CancelableWait E = (\<lambda>h. let r = cancelableWait E h in (errOf r, [CancelableWaitEv r]))"

definition GetTarget :: "env \<Rightarrow> Operation prog" where
  "GetTarget E = (\<lambda>h. let r = getTarget E h in (r, [GetTargetEv r]))"

definition CreateInstance :: "env \<Rightarrow> server \<Rightarrow> InstancesPost \<Rightarrow> Operation prog" where
  "CreateInstance E d req =
     (\<lambda>h. let r = createInstance E h d req in (r, [CreateInstanceEv d req r]))"

definition GetInstance :: "env \<Rightarrow> server \<Rightarrow> string \<Rightarrow> Instance prog" where
  "GetInstance E d n = (\<lambda>h. let r = getInstance E h d n in (r, [GetInstanceEv d n r]))"

section \<open>Strings\<close>

text \<open>
  \<open>strings.Contains\<close>, \<open>strings.SplitN\<close> and \<open>strings.Split\<close> of Go's standard library,
  for the one-byte separators init.go passes.
\<close>

definition Contains :: "string \<Rightarrow> char \<Rightarrow> bool" where
  "Contains s sep = (sep \<in> set s)"

fun SplitN :: "string \<Rightarrow> char \<Rightarrow> nat \<Rightarrow> string list" where
  "SplitN s sep 0 = []"
| "SplitN s sep (Suc 0) = [s]"
| "SplitN s sep (Suc (Suc n)) =
     (if sep \<in> set s
      then takeWhile (\<lambda>x. x \<noteq> sep) s # SplitN (tl (dropWhile (\<lambda>x. x \<noteq> sep) s)) sep (Suc n)
      else [s])"

fun Split :: "string \<Rightarrow> char \<Rightarrow> string list" where
  "Split [] sep = [[]]"
| "Split (x # xs) sep =
     (if x = sep then [] # Split xs sep
      else (case Split xs sep of [] \<Rightarrow> [[x]] | y # ys \<Rightarrow> (x # y) # ys))"

definition newline :: string where
  "newline = [CHR 0x0A]"

definition quote :: string where
  "quote = [CHR 0x27]"

section \<open>The program\<close>

subsection \<open>\<open>guessImage\<close> (init.go, lines 328-356)\<close>

definition tryE :: "'a prog \<Rightarrow> (error + 'a) prog" where
  "tryE m = (\<lambda>h. case m h of (r, w) \<Rightarrow> (Inr r, w))"

definition guessImage ::
    "env \<Rightarrow> Config \<Rightarrow> server \<Rightarrow> string \<Rightarrow> string \<Rightarrow> string \<Rightarrow> (string \<times> string) prog" where
  "guessImage E cf d remote iremote img =
     (if remote \<noteq> iremote then returnE (iremote, img)
      else
        let fields = SplitN img (CHR ''/'') 2 in
        (case Mapping.lookup (Remotes cf) (fields ! 0) of
           None \<Rightarrow> returnE (iremote, img)
         | Some _ \<Rightarrow>
             bindE (tryE (GetImageAlias E d img)) (\<lambda>r1.
               case r1 of
                 Inr _ \<Rightarrow> returnE (iremote, img)
               | Inl _ \<Rightarrow>
                   bindE (tryE (GetImage E d img)) (\<lambda>r2.
                     case r2 of
                       Inr _ \<Rightarrow> returnE (iremote, img)
                     | Inl _ \<Rightarrow>
                         if length fields = 1 then
                           bindE (Fprintf_Stderr
                               (''The local image '' @ quote @ img @ quote
                                @ '' couldn'' @ quote @ ''t be found, trying '' @ quote
                                @ fields ! 0 @ '':'' @ quote @ '' instead.'' @ newline))
                             (\<lambda>_. returnE (fields ! 0, ''default''))
                         else
                           bindE (Fprintf_Stderr
                               (''The local image '' @ quote @ img @ quote
                                @ '' couldn'' @ quote @ ''t be found, trying '' @ quote
                                @ fields ! 0 @ '':'' @ fields ! 1 @ quote
                                @ '' instead.'' @ newline))
                             (\<lambda>_. returnE (fields ! 0, fields ! 1))))))"

subsection \<open>\<open>checkNetwork\<close> (init.go, lines 358-373)\<close>

text \<open>
  The loop over \<open>ct.ExpandedDevices\<close> returns at the first device whose \<open>type\<close> is
  \<open>nic\<close>; the order of a Go map's iteration does not change whether one exists.
\<close>

definition hasNic :: "(string, (string, string) mapping) mapping \<Rightarrow> bool" where
  "hasNic devs =
     (\<exists>key \<in> Mapping.keys devs.
        case Mapping.lookup devs key of
          None \<Rightarrow> False
        | Some dev \<Rightarrow> Mapping.lookup dev ''type'' = Some ''nic'')"

definition checkNetwork :: "env \<Rightarrow> server \<Rightarrow> string \<Rightarrow> unit prog" where
  "checkNetwork E d name =
     bindE (tryE (GetInstance E d name)) (\<lambda>r.
       case r of
         Inl err \<Rightarrow> returnE ()
       | Inr ct \<Rightarrow>
           if hasNic (ExpandedDevices ct) then returnE ()
           else
             bindE (Fprintf_Stderr (newline
                 @ ''The container you are starting doesn'' @ quote
                 @ ''t have any network attached to it.'' @ newline)) (\<lambda>_.
             bindE (Fprintf_Stderr (''  ''
                 @ ''To create a new network, use: lxc network create'' @ newline)) (\<lambda>_.
             Fprintf_Stderr (''  ''
                 @ ''To attach a network to a container, use: lxc network attach''
                 @ newline @ newline))))"

subsection \<open>\<open>create\<close> (init.go, lines 76-326)\<close>

text \<open>Lines 86-97: the piped specification, read only when stdin is no terminal.\<close>

definition zeroInstancePut :: InstancePut where
  "zeroInstancePut =
     \<lparr>Config = Mapping.empty, Devices = Mapping.empty, Profiles = None, Ephemeral = False\<rparr>"

definition readStdin :: "env \<Rightarrow> InstancePut prog" where
  "readStdin E =
     (if \<not> stdinIsTerminal E then
        bindE (liftE (stdinReadAll E)) (\<lambda>contents. liftE (yamlUnmarshal E contents))
      else returnE zeroInstancePut)"

text \<open>
  Lines 99-116: the positional arguments. The value is the quadruple
  \<open>(iremote, image, remote, name)\<close> of the function's variables, all empty at first.
\<close>

definition parseArgs ::
    "Config \<Rightarrow> string list \<Rightarrow> (string \<times> string \<times> string \<times> string) prog" where
  "parseArgs cf args =
     (if length args > 0 then
        bindE (liftE (ParseRemote cf (args ! 0))) (\<lambda>(iremote, img).
          if length args = 1 then
            bindE (liftE (ParseRemote cf '''')) (\<lambda>(remote, name).
              returnE (iremote, img, remote, name))
          else if length args = 2 then
            bindE (liftE (ParseRemote cf (args ! 1))) (\<lambda>(remote, name).
              returnE (iremote, img, remote, name))
          else returnE (iremote, img, '''', ''''))
      else returnE ('''', '''', '''', ''''))"

text \<open>Lines 118-135: the empty-instance flag.\<close>

definition handleEmpty ::
    "cmdInit \<Rightarrow> Config \<Rightarrow> string list \<Rightarrow> string \<times> string \<times> string \<times> string
      \<Rightarrow> (string \<times> string \<times> string \<times> string) prog" where
  "handleEmpty c cf args v =
     (case v of (iremote, img, remote, name) \<Rightarrow>
        if flagEmpty c then
          if length args > 1 then
            failE (Error ''--empty cannot be combined with an image name'')
          else if length args = 0 then
            bindE (liftE (ParseRemote cf '''')) (\<lambda>(remote, name).
              returnE (iremote, img, remote, name))
          else if length args = 1 then returnE ('''', '''', iremote, img)
          else returnE v
        else returnE v)"

text \<open>Lines 151-157.\<close>

definition printCreating :: "cmdInit \<Rightarrow> string \<Rightarrow> unit prog" where
  "printCreating c name =
     (if \<not> flagQuiet (global c) then
        if name = '''' then Printf (''Creating the container'' @ newline)
        else Printf (''Creating '' @ name @ newline)
      else returnE ())"

text \<open>Lines 165-176: the device of the network flag.\<close>

definition networkDevice ::
    "cmdInit \<Rightarrow> env \<Rightarrow> server \<Rightarrow> (string, (string, string) mapping) mapping
      \<Rightarrow> (string, (string, string) mapping) mapping prog" where
  "networkDevice c E d devicesMap =
     (if flagNetwork c \<noteq> '''' then
        bindE (GetNetwork E d (flagNetwork c)) (\<lambda>network.
          if Network.Type network = ''bridge'' then
            returnE (Mapping.update (flagNetwork c)
              (Mapping.of_alist
                [(''type'', ''nic''), (''nictype'', ''bridged''), (''parent'', flagNetwork c)])
              devicesMap)
          else
            returnE (Mapping.update (flagNetwork c)
              (Mapping.of_alist
                [(''type'', ''nic''), (''nictype'', ''macvlan''), (''parent'', flagNetwork c)])
              devicesMap))
      else returnE devicesMap)"

text \<open>Lines 183-190: the loop over the config flags.\<close>

fun applyConfig ::
    "string list \<Rightarrow> (string, string) mapping \<Rightarrow> error + (string, string) mapping" where
  "applyConfig [] configMap = Inr configMap"
| "applyConfig (entry # rest) configMap =
     (if \<not> Contains entry (CHR ''='') then Inl (Error (''Bad key=value pair: '' @ entry))
      else
        let fields = SplitN entry (CHR ''='') 2
        in applyConfig rest (Mapping.update (fields ! 0) (fields ! 1) configMap))"

text \<open>Lines 192-204: the storage pool flag.\<close>

definition storageDevice ::
    "cmdInit \<Rightarrow> env \<Rightarrow> server \<Rightarrow> (string, (string, string) mapping) mapping
      \<Rightarrow> (string, (string, string) mapping) mapping prog" where
  "storageDevice c E d devicesMap =
     (if flagStorage c \<noteq> '''' then
        bindE (GetStoragePool E d (flagStorage c)) (\<lambda>_.
          returnE (Mapping.update ''root''
            (Mapping.of_alist [(''type'', ''disk''), (''path'', ''/''), (''pool'', flagStorage c)])
            devicesMap))
      else returnE devicesMap)"

text \<open>Lines 206-223: the creation request. \<open>len\<close> of a nil slice is 0.\<close>

definition len :: "'a list option \<Rightarrow> nat" where
  "len xs = (case xs of None \<Rightarrow> 0 | Some ys \<Rightarrow> length ys)"

definition buildRequest ::
    "cmdInit \<Rightarrow> InstancePut \<Rightarrow> string \<Rightarrow> string list \<Rightarrow> (string, string) mapping
      \<Rightarrow> (string, (string, string) mapping) mapping \<Rightarrow> InstancesPost" where
  "buildRequest c stdinData name profiles configMap devicesMap =
     \<lparr>Config = configMap,
      Devices = devicesMap,
      Profiles =
        (if \<not> flagNoProfiles c \<and> length profiles = 0 then
           (if len (Profiles stdinData) > 0 then Profiles stdinData else None)
         else Some profiles),
      Ephemeral = flagEphemeral c,
      Name = name,
      Source = \<lparr>Type = '''', Alias = ''''\<rparr>,
      InstanceType = flagType c\<rparr>"

text \<open>
  Lines 226-299: creation from an image. \<open>conf.Remotes[iremote]\<close> of a remote that is
  not configured is the zero \<open>Remote\<close>, whose protocol is the empty string. The progress
  renderer only draws on the terminal and is left out.
\<close>

definition protocolOf :: "Config \<Rightarrow> string \<Rightarrow> string" where
  "protocolOf cf iremote = (case Mapping.lookup (Remotes cf) iremote of None \<Rightarrow> '''' | Some r \<Rightarrow> Protocol r)"

definition imageInfo ::
    "env \<Rightarrow> Config \<Rightarrow> server \<Rightarrow> string \<Rightarrow> string \<Rightarrow> InstancesPost
      \<Rightarrow> (Image \<times> InstancesPost) prog" where
  "imageInfo E cf imgRemote iremote img req =
     (if protocolOf cf iremote = ''simplestreams'' then
        returnE (\<lparr>Fingerprint = img, Public = True\<rparr>,
                 req\<lparr>Source := (Source req)\<lparr>Alias := img\<rparr>\<rparr>)
      else
        bindE (tryE (GetImageAlias E imgRemote img)) (\<lambda>r.
          case r of
            Inr alias \<Rightarrow>
              bindE (GetImage E imgRemote (Target alias)) (\<lambda>imgInfo.
                returnE (imgInfo, req\<lparr>Source := (Source req)\<lparr>Alias := img\<rparr>\<rparr>))
          | Inl _ \<Rightarrow>
              bindE (GetImage E imgRemote img) (\<lambda>imgInfo. returnE (imgInfo, req))))"

definition createFromImage ::
    "env \<Rightarrow> Config \<Rightarrow> server \<Rightarrow> string \<Rightarrow> string \<Rightarrow> string \<Rightarrow> InstancesPost
      \<Rightarrow> Operation prog" where
  "createFromImage E cf d remote iremote0 img0 req0 =
     bindE (guessImage E cf d remote iremote0 img0) (\<lambda>(iremote, img1).
     bindE (if iremote = remote then returnE d else GetImageServer E iremote) (\<lambda>imgRemote.
     let img = (if img1 = '''' then ''default'' else img1) in
     bindE (imageInfo E cf imgRemote iremote img req0) (\<lambda>(imgInfo, req).
     bindE (CreateInstanceFromImage E d imgRemote imgInfo req) (\<lambda>_.
     bindE (AddHandler E) (\<lambda>_.
     bindE (CancelableWait E) (\<lambda>_.
     GetTarget E))))))"

text \<open>Lines 300-309: creation of an empty instance.\<close>

definition createEmpty :: "env \<Rightarrow> server \<Rightarrow> InstancesPost \<Rightarrow> Operation prog" where
  "createEmpty E d req =
     CreateInstance E d (req\<lparr>Source := (Source req)\<lparr>Type := ''none''\<rparr>\<rparr>)"

text \<open>Lines 311-325: the name of the created instance and the network check.\<close>

definition extractName :: "env \<Rightarrow> server \<Rightarrow> string \<Rightarrow> Operation \<Rightarrow> (server \<times> string) prog" where
  "extractName E d name0 opInfo =
     (case Mapping.lookup (Resources opInfo) ''containers'' of
        None \<Rightarrow>
          failE (Error (''Didn'' @ quote
            @ ''t get any affected image, container or snapshot from server''))
      | Some containers \<Rightarrow>
          if length containers = 0 then
            failE (Error (''Didn'' @ quote
              @ ''t get any affected image, container or snapshot from server''))
          else
            bindE (if length containers = 1 \<and> name0 = '''' then
                     let fields = Split (containers ! 0) (CHR ''/'');
                         name = fields ! (length fields - 1)
                     in bindE (Printf (''Container name is: '' @ name @ newline))
                          (\<lambda>_. returnE name)
                   else returnE name0) (\<lambda>name.
            bindE (checkNetwork E d name) (\<lambda>_.
            returnE (d, name))))"

text \<open>
  Lines 86-223, the part of \<open>create\<close> before the creation call: it yields the server
  \<open>d\<close>, the variables \<open>remote\<close>, \<open>iremote\<close>, \<open>image\<close> and \<open>name\<close>, and the request.
\<close>

definition prepare ::
    "cmdInit \<Rightarrow> env \<Rightarrow> Config \<Rightarrow> string list
      \<Rightarrow> (server \<times> string \<times> string \<times> string \<times> string \<times> InstancesPost) prog" where
  "prepare c E cf args =
     bindE (readStdin E) (\<lambda>stdinData.
     bindE (parseArgs cf args) (\<lambda>v.
     bindE (handleEmpty c cf args v) (\<lambda>(iremote, img, remote, name).
     bindE (GetInstanceServer E remote) (\<lambda>d0.
     let d = (if flagTarget c \<noteq> '''' then UseTarget d0 (flagTarget c) else d0);
         profiles = flagProfile c
     in
     bindE (printCreating c name) (\<lambda>_.
     bindE (networkDevice c E d
              (if \<not> Mapping.is_empty (Devices stdinData) then Devices stdinData
               else Mapping.empty))
       (\<lambda>devicesMap0.
     bindE (liftE (applyConfig (flagConfig c)
              (if \<not> Mapping.is_empty (Config stdinData) then Config stdinData
               else Mapping.empty)))
       (\<lambda>configMap.
     bindE (storageDevice c E d devicesMap0) (\<lambda>devicesMap.
     returnE (d, remote, iremote, img, name,
              buildRequest c stdinData name profiles configMap devicesMap)))))))))"

text \<open>Lines 225-326: the creation call, the created instance's name, the network check.\<close>

definition create :: "cmdInit \<Rightarrow> env \<Rightarrow> Config \<Rightarrow> string list \<Rightarrow> (server \<times> string) prog" where
  "create c E cf args =
     bindE (prepare c E cf args) (\<lambda>(d, remote, iremote, img, name, req).
     bindE (if \<not> flagEmpty c then createFromImage E cf d remote iremote img req
            else createEmpty E d req) (\<lambda>opInfo.
     extractName E d name opInfo))"

subsection \<open>\<open>Run\<close> (init.go, lines 60-74)\<close>

definition Run :: "cmdInit \<Rightarrow> env \<Rightarrow> string list \<Rightarrow> unit prog" where
  "Run c E args =
     (case CheckArgs E args 0 2 of (exit, err) \<Rightarrow>
        if exit then liftE (errOf err)
        else if length args = 0 \<and> \<not> flagEmpty c then Fprintf_Stderr (usageText E)
        else bindE (create c E (conf (global c)) args) (\<lambda>_. returnE ()))"

section \<open>Reading a trace\<close>

text \<open>The request carried by a creation call.\<close>

fun requestOf :: "event \<Rightarrow> InstancesPost option" where
  "requestOf (CreateInstanceFromImageEv d imgRemote imgInfo req r) = Some req"
| "requestOf (CreateInstanceEv d req r) = Some req"
| "requestOf _ = None"

text \<open>
  The operation of a creation that completed: \<open>op.GetTarget()\<close> after the wait for a
  creation from an image, \<open>op.Get()\<close> of the operation \<open>CreateInstance\<close> returned for an
  empty instance.
\<close>

fun operationOf :: "event \<Rightarrow> Operation option" where
  "operationOf (GetTargetEv (Inr opInfo)) = Some opInfo"
| "operationOf (CreateInstanceEv d req (Inr opInfo)) = Some opInfo"
| "operationOf _ = None"

text \<open>Alias and fingerprint lookups.\<close>

fun isImageLookup :: "event \<Rightarrow> bool" where
  "isImageLookup (GetImageAliasEv d n r) = True"
| "isImageLookup (GetImageEv d n r) = True"
| "isImageLookup _ = False"

text \<open>
  The last slash-separated segment of a resource path, as the specification words it:
  what follows the last slash, the whole path when it has none.
\<close>

definition lastSegment :: "string \<Rightarrow> string" where
  "lastSegment path = rev (takeWhile (\<lambda>x. x \<noteq> CHR ''/'') (rev path))"

text \<open>
  The events each part of \<open>create\<close> can add: the preparation of the request
  (lines 86-223), the creation call with the image resolution before it and the wait
  after it (lines 225-309), and the extraction of the name with the network check
  (lines 311-325).
\<close>

fun prepareEvent :: "event \<Rightarrow> bool" where
  "prepareEvent (GetInstanceServerEv remote r) = True"
| "prepareEvent (Stdout msg) = True"
| "prepareEvent (GetNetworkEv d n r) = True"
| "prepareEvent (GetStoragePoolEv d n r) = True"
| "prepareEvent _ = False"

fun submitEvent :: "event \<Rightarrow> bool" where
  "submitEvent (GetImageServerEv iremote r) = True"
| "submitEvent (GetImageAliasEv d n r) = True"
| "submitEvent (GetImageEv d n r) = True"
| "submitEvent (CreateInstanceFromImageEv d imgRemote imgInfo req r) = True"
| "submitEvent (AddHandlerEv r) = True"
| "submitEvent (CancelableWaitEv r) = True"
| "submitEvent (GetTargetEv r) = True"
| "submitEvent (CreateInstanceEv d req r) = True"
| "submitEvent (Stderr msg) = True"
| "submitEvent _ = False"

fun finishEvent :: "event \<Rightarrow> bool" where
  "finishEvent (Stdout msg) = True"
| "finishEvent (GetInstanceEv d n r) = True"
| "finishEvent (Stderr msg) = True"
| "finishEvent _ = False"

text \<open>
  \<open>ensures m Q A\<close>: whatever the trace so far, every event that \<open>m\<close> adds is in \<open>A\<close>, and
  a value it returns satisfies \<open>Q\<close>.
\<close>

definition ensures :: "'a prog \<Rightarrow> ('a \<Rightarrow> bool) \<Rightarrow> event set \<Rightarrow> bool" where
  "ensures m Q A = (\<forall>h r w. m h = (r, w) \<longrightarrow> set w \<subseteq> A \<and> (\<forall>x. r = Inr x \<longrightarrow> Q x))"

section \<open>Fixtures\<close>

text \<open>
  A configuration with a management remote \<open>local\<close> (the default) and a
  streaming-catalog remote \<open>images\<close>, and an environment whose services all answer:
  the bridge network exists, so does every storage pool, no alias is known, every
  fingerprint is, and the created instance is reported as \<open>/1.0/containers/c1\<close> without
  a network device. The piped specification asks for a \<open>root\<close> disk on pool \<open>other\<close>
  and for profile \<open>web\<close>.
\<close>

definition testConfig :: Config where
  "testConfig =
     \<lparr>Remotes = Mapping.of_alist
        [(''local'', \<lparr>Protocol = ''lxd''\<rparr>), (''images'', \<lparr>Protocol = ''simplestreams''\<rparr>)],
      ParseRemote = (\<lambda>s.
        if CHR '':'' \<in> set s
        then Inr (takeWhile (\<lambda>x. x \<noteq> CHR '':'') s, tl (dropWhile (\<lambda>x. x \<noteq> CHR '':'') s))
        else Inr (''local'', s))\<rparr>"

definition testStdin :: InstancePut where
  "testStdin =
     \<lparr>Config = Mapping.of_alist [(''limits.cpu'', ''1'')],
      Devices = Mapping.of_alist
        [(''root'', Mapping.of_alist [(''type'', ''disk''), (''path'', ''/''), (''pool'', ''other'')])],
      Profiles = Some [''web''],
      Ephemeral = False\<rparr>"

definition testOperation :: Operation where
  "testOperation = \<lparr>Resources = Mapping.of_alist [(''containers'', [''/1.0/containers/c1''])]\<rparr>"

definition testEnv :: env where
  "testEnv =
     \<lparr>stdinIsTerminal = False,
      stdinReadAll = Inr ''devices: ...'',
      yamlUnmarshal = (\<lambda>contents. Inr testStdin),
      CheckArgs = (\<lambda>args lo hi. (length args < lo \<or> hi < length args,
                     if length args = 0 \<or> (lo \<le> length args \<and> length args \<le> hi) then None
                     else Some (Error ''Invalid number of arguments''))),
      usageText = ''Usage: lxc init'',
      getInstanceServer = (\<lambda>h remote. None),
      getImageServer = (\<lambda>h iremote. None),
      getNetwork = (\<lambda>h d n. Inr \<lparr>Network.Type = ''bridge''\<rparr>),
      getStoragePool = (\<lambda>h d n. None),
      getImageAlias = (\<lambda>h d n. Inl (Error ''not found'')),
      getImage = (\<lambda>h d n. Inr \<lparr>Fingerprint = n, Public = False\<rparr>),
      createInstanceFromImage = (\<lambda>h d imgRemote imgInfo req. None),
      addHandler = (\<lambda>h. None),
      cancelableWait = (\<lambda>h. None),
      getTarget = (\<lambda>h. Inr testOperation),
      createInstance = (\<lambda>h d req. Inr testOperation),
      getInstance = (\<lambda>h d n. Inr \<lparr>ExpandedDevices = Mapping.empty\<rparr>)\<rparr>"

definition testCmd :: cmdInit where
  "testCmd =
     \<lparr>global = \<lparr>conf = testConfig, flagQuiet = False\<rparr>,
      flagConfig = [],
      flagEphemeral = False,
      flagNetwork = '''',
      flagProfile = [],
      flagStorage = '''',
      flagTarget = '''',
      flagType = '''',
      flagNoProfiles = False,
      flagEmpty = False\<rparr>"

text \<open>Variants: a server that knows every alias, and one that knows no image at all.\<close>

definition aliasEnv :: env where
  "aliasEnv = testEnv\<lparr>getImageAlias := (\<lambda>h d n. Inr \<lparr>Target = ''fp1''\<rparr>)\<rparr>"

definition missingEnv :: env where
  "missingEnv = testEnv\<lparr>getImage := (\<lambda>h d n. Inl (Error ''not found''))\<rparr>"

text \<open>
  Invocations and environments derived from them: a storage pool flag together with a
  network named \<open>root\<close>; \<open>--no-profiles\<close>; an interactive terminal instead of piped
  input; an operation that lists no container; an instance that cannot be fetched after
  its creation; \<open>--empty\<close>; the request that \<open>testCmd\<close> prepares for the name \<open>c1\<close> from
  \<open>testStdin\<close>; and a config flag without \<open>=\<close> behind a well-formed one.
\<close>

definition storageCmd :: cmdInit where
  "storageCmd = testCmd\<lparr>flagStorage := ''pool1'', flagNetwork := ''root''\<rparr>"

definition noProfilesCmd :: cmdInit where
  "noProfilesCmd = testCmd\<lparr>flagNoProfiles := True\<rparr>"

definition terminalEnv :: env where
  "terminalEnv = testEnv\<lparr>stdinIsTerminal := True\<rparr>"

definition noResourceEnv :: env where
  "noResourceEnv = testEnv\<lparr>getTarget := (\<lambda>h. Inr \<lparr>Resources = Mapping.empty\<rparr>)\<rparr>"

definition unreachableEnv :: env where
  "unreachableEnv = testEnv\<lparr>getInstance := (\<lambda>h d n. Inl (Error ''not found''))\<rparr>"

definition emptyCmd :: cmdInit where
  "emptyCmd = testCmd\<lparr>flagEmpty := True\<rparr>"

definition fastReq :: InstancesPost where
  "fastReq = buildRequest testCmd testStdin ''c1'' [] (Config testStdin) (Devices testStdin)"


section \<open>Auxiliary facts\<close>

subsection \<open>Splitting strings\<close>

lemma takeWhile_upto_sep:
  "sep \<notin> set a \<Longrightarrow> takeWhile (\<lambda>x. x \<noteq> sep) (a @ sep # b) = a"
  by (induction a) auto

lemma dropWhile_upto_sep:
  "sep \<notin> set a \<Longrightarrow> dropWhile (\<lambda>x. x \<noteq> sep) (a @ sep # b) = sep # b"
  by (induction a) auto

lemma SplitN_2_sep: "sep \<notin> set a \<Longrightarrow> SplitN (a @ sep # b) sep 2 = [a, b]"
  by (simp add: numeral_2_eq_2 takeWhile_upto_sep dropWhile_upto_sep)

lemma SplitN_2_nosep: "sep \<notin> set a \<Longrightarrow> SplitN a sep 2 = [a]"
  by (simp add: numeral_2_eq_2)

lemma Split_nonempty: "Split s sep \<noteq> []"
  by (induction s) (auto split: list.splits)

lemma Split_nosep: "sep \<notin> set s \<Longrightarrow> Split s sep = [s]"
  by (induction s) auto

lemma Split_sep: "sep \<in> set s \<Longrightarrow> \<exists>a b cs. Split s sep = a # b # cs"
proof (induction s)
  case Nil
  then show ?case by simp
next
  case (Cons x xs)
  show ?case
  proof (cases "x = sep")
    case True
    with Split_nonempty [of xs sep] show ?thesis
      by (cases "Split xs sep") auto
  next
    case False
    with Cons.prems have "sep \<in> set xs" by simp
    with Cons.IH obtain a b cs where "Split xs sep = a # b # cs" by blast
    with False show ?thesis by simp
  qed
qed

lemma takeWhile_all: "\<forall>x\<in>set ys. P x \<Longrightarrow> takeWhile P ys = ys"
  by (induction ys) auto

lemma last_Split: "last (Split s sep) = rev (takeWhile (\<lambda>x. x \<noteq> sep) (rev s))"
proof (induction s)
  case Nil
  then show ?case by simp
next
  case (Cons x xs)
  show ?case
  proof (cases "sep \<in> set xs")
    case True
    then obtain a b cs where sp: "Split xs sep = a # b # cs"
      using Split_sep by blast
    have tw: "takeWhile (\<lambda>x. x \<noteq> sep) (rev xs @ [x]) = takeWhile (\<lambda>x. x \<noteq> sep) (rev xs)"
      using True by (auto simp add: takeWhile_append)
    from sp Cons.IH show ?thesis by (simp add: tw)
  next
    case False
    then have sp: "Split xs sep = [xs]" by (rule Split_nosep)
    from False have all: "\<forall>y\<in>set (rev xs). y \<noteq> sep" by auto
    show ?thesis
    proof (cases "x = sep")
      case True
      with sp all show ?thesis by (simp add: takeWhile_append takeWhile_all)
    next
      case False
      with sp all show ?thesis by (simp add: takeWhile_append takeWhile_all)
    qed
  qed
qed

lemma Split_last_index:
  "Split s (CHR ''/'') ! (length (Split s (CHR ''/'')) - 1) = lastSegment s"
  using Split_nonempty [of s "CHR ''/''"] last_Split [of s "CHR ''/''"]
  by (simp add: last_conv_nth lastSegment_def)

subsection \<open>Running computations\<close>

lemmas prog_defs = bindE_def returnE_def failE_def liftE_def emit_def tryE_def Printf_def
  Fprintf_Stderr_def GetInstanceServer_def GetImageServer_def GetNetwork_def GetStoragePool_def
  GetImageAlias_def GetImage_def CreateInstanceFromImage_def AddHandler_def CancelableWait_def
  GetTarget_def CreateInstance_def GetInstance_def


lemmas fixture_defs = testEnv_def testCmd_def testConfig_def testStdin_def testOperation_def
  aliasEnv_def missingEnv_def

lemma bindE_cases:
  assumes "bindE m f h = (r, w)"
  obtains (err) e where "m h = (Inl e, w)" and "r = Inl e"
  | (ok) x w1 w2 where "m h = (Inr x, w1)" and "f x (h @ w1) = (r, w2)" and "w = w1 @ w2"
  using assms
  by (auto simp: bindE_def split: prod.splits sum.splits)


lemma ensuresD:
  "ensures m Q A \<Longrightarrow> m h = (r, w) \<Longrightarrow> set w \<subseteq> A \<and> (\<forall>x. r = Inr x \<longrightarrow> Q x)"
  by (simp add: ensures_def)

lemma ensures_bindE:
  assumes "ensures m Q A" and "\<And>x. Q x \<Longrightarrow> ensures (f x) Q' A"
  shows "ensures (bindE m f) Q' A"
  unfolding ensures_def
proof (intro allI impI)
  fix h r w
  assume run: "bindE m f h = (r, w)"
  then show "set w \<subseteq> A \<and> (\<forall>x. r = Inr x \<longrightarrow> Q' x)"
  proof (cases rule: bindE_cases)
    case (err e)
    with assms(1) show ?thesis by (auto dest: ensuresD)
  next
    case (ok x w1 w2)
    from assms(1) ok(1) have "set w1 \<subseteq> A" and "Q x" by (auto dest: ensuresD)
    moreover from assms(2) [OF \<open>Q x\<close>] ok(2)
    have "set w2 \<subseteq> A \<and> (\<forall>y. r = Inr y \<longrightarrow> Q' y)"
      by (rule ensuresD)
    ultimately show ?thesis using ok(3) by auto
  qed
qed

lemma ensures_returnE: "Q x \<Longrightarrow> ensures (returnE x) Q A"
  by (simp add: ensures_def returnE_def)

lemma ensures_liftE: "(\<And>x. r = Inr x \<Longrightarrow> Q x) \<Longrightarrow> ensures (liftE r) Q A"
  by (auto simp add: ensures_def liftE_def)

lemma ensures_mono: "ensures m Q A \<Longrightarrow> A \<subseteq> A' \<Longrightarrow> ensures m Q A'"
  unfolding ensures_def by blast

lemma ensures_local:
  assumes "\<And>h. m h = (fst (m []), [])"
  shows "ensures m (\<lambda>x. \<forall>h. m h = (Inr x, [])) A"
  unfolding ensures_def using assms
  by (metis empty_iff empty_set fst_conv snd_conv subsetI)

subsection \<open>The preparation of the request\<close>

lemma readStdin_local: "readStdin E h = (fst (readStdin E []), [])"
  by (simp add: readStdin_def bindE_def liftE_def returnE_def split: sum.splits)

lemma parseArgs_local: "parseArgs cf args h = (fst (parseArgs cf args []), [])"
  by (simp add: parseArgs_def bindE_def liftE_def returnE_def split: sum.splits prod.splits)

lemma handleEmpty_local: "handleEmpty c cf args v h = (fst (handleEmpty c cf args v []), [])"
  by (simp add: handleEmpty_def bindE_def liftE_def returnE_def failE_def
      split: sum.splits prod.splits)

lemma ensures_GetInstanceServer:
  "(\<And>r. GetInstanceServerEv remote r \<in> A)
   \<Longrightarrow> ensures (GetInstanceServer E remote) (\<lambda>d. d = InstanceServer remote) A"
  by (auto simp: ensures_def GetInstanceServer_def Let_def split: option.splits)

lemma ensures_printCreating:
  "(\<And>msg. Stdout msg \<in> A) \<Longrightarrow> ensures (printCreating c name) (\<lambda>_. True) A"
  by (auto simp: ensures_def printCreating_def Printf_def emit_def returnE_def split: if_splits)

lemma ensures_networkDevice:
  "(\<And>r. GetNetworkEv d (flagNetwork c) r \<in> A)
   \<Longrightarrow> ensures (networkDevice c E d m) (\<lambda>_. True) A"
  by (auto simp: ensures_def networkDevice_def bindE_def GetNetwork_def returnE_def Let_def
      split: if_splits sum.splits)

lemma ensures_storageDevice:
  "(\<And>r. GetStoragePoolEv d (flagStorage c) r \<in> A)
   \<Longrightarrow> ensures (storageDevice c E d m)
        (\<lambda>m'. flagStorage c \<noteq> '''' \<longrightarrow>
           Mapping.lookup m' ''root'' =
             Some (Mapping.of_alist
                     [(''type'', ''disk''), (''path'', ''/''), (''pool'', flagStorage c)])) A"
  by (auto simp: ensures_def storageDevice_def bindE_def GetStoragePool_def returnE_def Let_def
      split: if_splits sum.splits)

lemma prepare_ensures:
  "ensures (prepare c E cf args)
     (\<lambda>(d, remote, iremote, img, name, req).
        \<exists>sd v. (\<forall>h. readStdin E h = (Inr sd, []))
          \<and> (\<forall>h. parseArgs cf args h = (Inr v, []))
          \<and> (\<forall>h. handleEmpty c cf args v h = (Inr (iremote, img, remote, name), []))
          \<and> d = (if flagTarget c \<noteq> '''' then UseTarget (InstanceServer remote) (flagTarget c)
                 else InstanceServer remote)
          \<and> Name req = name
          \<and> Source req = \<lparr>Type = '''', Alias = ''''\<rparr>
          \<and> Profiles req =
               (if flagNoProfiles c \<or> flagProfile c \<noteq> [] then Some (flagProfile c)
                else if len (Profiles sd) > 0 then Profiles sd else None)
          \<and> (flagStorage c \<noteq> '''' \<longrightarrow>
               Mapping.lookup (Devices req) ''root'' =
                 Some (Mapping.of_alist
                         [(''type'', ''disk''), (''path'', ''/''), (''pool'', flagStorage c)])))
     {ev. prepareEvent ev}"
  unfolding prepare_def Let_def
  apply (rule ensures_bindE, rule ensures_local, rule readStdin_local)
  apply (rule ensures_bindE, rule ensures_local, rule parseArgs_local)
  apply (rule ensures_bindE, rule ensures_local, rule handleEmpty_local)
  apply (clarsimp simp only: split_paired_all prod.case)
  apply (rule ensures_bindE, rule ensures_GetInstanceServer, simp)
  apply (rule ensures_bindE, rule ensures_printCreating, simp)
  apply (rule ensures_bindE, rule ensures_networkDevice, simp)
  apply (rule ensures_bindE, rule ensures_liftE [where Q = "\<lambda>_. True"], simp)
  apply (rule ensures_bindE, rule ensures_storageDevice, simp)
  apply (rule ensures_returnE)
  apply (auto simp: buildRequest_def)
  done

subsection \<open>The creation call\<close>

lemma operationOf_GetTargetEv [simp]:
  "operationOf (GetTargetEv x) = Some opInfo \<longleftrightarrow> x = Inr opInfo"
  by (cases x) auto

lemma operationOf_CreateInstanceEv [simp]:
  "operationOf (CreateInstanceEv d req x) = Some opInfo \<longleftrightarrow> x = Inr opInfo"
  by (cases x) auto

lemma operationOf_GetTargetEv_None [simp]:
  "operationOf (GetTargetEv x) = None \<longleftrightarrow> (\<exists>e. x = Inl e)"
  by (cases x) auto

lemma operationOf_CreateInstanceEv_None [simp]:
  "operationOf (CreateInstanceEv d req x) = None \<longleftrightarrow> (\<exists>e. x = Inl e)"
  by (cases x) auto

lemma ensures_guessImage:
  "ensures (guessImage E cf d remote iremote img) (\<lambda>_. True)
     {ev. submitEvent ev \<and> requestOf ev = None \<and> operationOf ev = None}"
  unfolding guessImage_def Let_def
  by (auto simp: ensures_def prog_defs Let_def split: option.splits sum.splits if_splits)

lemma ensures_connect:
  "ensures (if iremote = remote then returnE d else GetImageServer E iremote) (\<lambda>_. True)
     {ev. submitEvent ev \<and> \<not> isImageLookup ev \<and> requestOf ev = None \<and> operationOf ev = None}"
  by (auto simp: ensures_def prog_defs Let_def split: option.splits sum.splits if_splits)

lemma ensures_imageInfo:
  "ensures (imageInfo E cf imgRemote iremote img req0)
     (\<lambda>(imgInfo, req). req\<lparr>Source := Source req0\<rparr> = req0)
     {ev. submitEvent ev \<and> requestOf ev = None \<and> operationOf ev = None}"
  unfolding imageInfo_def
  by (auto simp: ensures_def prog_defs Let_def split: option.splits sum.splits if_splits)

lemma waitForOperation_run:
  assumes "bindE (CreateInstanceFromImage E d imgRemote imgInfo req) (\<lambda>_.
           bindE (AddHandler E) (\<lambda>_.
           bindE (CancelableWait E) (\<lambda>_.
           GetTarget E))) h = (r, w)"
  shows "(\<exists>res rest. w = CreateInstanceFromImageEv d imgRemote imgInfo req res # rest
            \<and> (\<forall>ev\<in>set rest. submitEvent ev \<and> \<not> isImageLookup ev \<and> requestOf ev = None))
         \<and> (\<forall>ev\<in>set w. \<forall>opInfo. operationOf ev = Some opInfo \<longrightarrow> r = Inr opInfo)"
  using assms
  by (auto simp: prog_defs Let_def split: option.splits sum.splits if_splits prod.splits)

lemma createFromImage_ensures:
  "ensures (createFromImage E cf d remote iremote img req0) (\<lambda>_. True)
     {ev. submitEvent ev
        \<and> (\<forall>req. requestOf ev = Some req \<longrightarrow> req\<lparr>Source := Source req0\<rparr> = req0)}"
  unfolding createFromImage_def Let_def
  apply (rule ensures_bindE, rule ensures_mono [OF ensures_guessImage], fastforce)
  apply (simp only: split_paired_all prod.case)
  apply (rule ensures_bindE, rule ensures_mono [OF ensures_connect], fastforce)
  apply (rule ensures_bindE, rule ensures_mono [OF ensures_imageInfo], fastforce)
  apply (simp only: split_paired_all prod.case)
  apply (clarsimp simp: ensures_def)
  apply (drule waitForOperation_run)
  apply auto
  done

lemma bindE_operation:
  assumes run: "bindE m f h = (r, w)"
    and m: "ensures m Q {ev. operationOf ev = None}"
    and f: "\<And>x h' w'. f x h' = (r, w')
              \<Longrightarrow> \<forall>ev\<in>set w'. \<forall>opInfo. operationOf ev = Some opInfo \<longrightarrow> r = Inr opInfo"
  shows "\<forall>ev\<in>set w. \<forall>opInfo. operationOf ev = Some opInfo \<longrightarrow> r = Inr opInfo"
  using run
proof (cases rule: bindE_cases)
  case (err e)
  with m show ?thesis by (fastforce dest: ensuresD)
next
  case (ok x w1 w2)
  from m ok(1) have "set w1 \<subseteq> {ev. operationOf ev = None}" by (auto dest: ensuresD)
  moreover from f ok(2)
  have "\<forall>ev\<in>set w2. \<forall>opInfo. operationOf ev = Some opInfo \<longrightarrow> r = Inr opInfo" .
  ultimately show ?thesis using ok(3) by fastforce
qed

lemma createFromImage_operation:
  assumes "createFromImage E cf d remote iremote img req0 h = (r, w)"
  shows "\<forall>ev\<in>set w. \<forall>opInfo. operationOf ev = Some opInfo \<longrightarrow> r = Inr opInfo"
  using assms unfolding createFromImage_def Let_def
  apply (rule bindE_operation)
   apply (rule ensures_mono [OF ensures_guessImage], fastforce)
  apply (simp only: split_paired_all prod.case)
  apply (erule bindE_operation)
   apply (rule ensures_mono [OF ensures_connect], fastforce)
  apply (erule bindE_operation)
   apply (rule ensures_mono [OF ensures_imageInfo], fastforce)
  apply (simp only: split_paired_all prod.case)
  apply (drule waitForOperation_run)
  apply blast
  done

lemma createEmpty_run:
  "createEmpty E d req h =
     (createInstance E h d (req\<lparr>Source := (Source req)\<lparr>Type := ''none''\<rparr>\<rparr>),
      [CreateInstanceEv d (req\<lparr>Source := (Source req)\<lparr>Type := ''none''\<rparr>\<rparr>)
         (createInstance E h d (req\<lparr>Source := (Source req)\<lparr>Type := ''none''\<rparr>\<rparr>))])"
  by (simp add: createEmpty_def CreateInstance_def Let_def)

text \<open>Both ways of creating: the events, and the operation behind a returned value.\<close>

lemma submit_run:
  assumes "(if \<not> flagEmpty c then createFromImage E cf d remote iremote img req0
            else createEmpty E d req0) h = (r, w)"
  shows "\<forall>ev\<in>set w. submitEvent ev
           \<and> (\<forall>req. requestOf ev = Some req \<longrightarrow> req\<lparr>Source := Source req0\<rparr> = req0)
           \<and> (\<forall>opInfo. operationOf ev = Some opInfo \<longrightarrow> r = Inr opInfo)"
proof (cases "flagEmpty c")
  case True
  with assms show ?thesis by (auto simp: createEmpty_run)
next
  case False
  with assms have run: "createFromImage E cf d remote iremote img req0 h = (r, w)" by simp
  from ensuresD [OF createFromImage_ensures run] createFromImage_operation [OF run]
  show ?thesis by blast
qed

subsection \<open>The created instance's name and the network check\<close>

lemma Split_last_index_Suc:
  "Split s (CHR ''/'') ! (length (Split s (CHR ''/'')) - Suc 0) = lastSegment s"
  using Split_last_index [of s] by simp

lemma checkNetwork_run:
  "checkNetwork E d name h =
     (Inr (),
      GetInstanceEv d name (getInstance E h d name) #
      (case getInstance E h d name of
         Inl err \<Rightarrow> []
       | Inr ct \<Rightarrow>
           if hasNic (ExpandedDevices ct) then []
           else [Stderr (newline @ ''The container you are starting doesn'' @ quote
                   @ ''t have any network attached to it.'' @ newline),
                 Stderr (''  '' @ ''To create a new network, use: lxc network create'' @ newline),
                 Stderr (''  '' @ ''To attach a network to a container, use: lxc network attach''
                   @ newline @ newline)]))"
  by (simp add: checkNetwork_def prog_defs Let_def split: sum.splits)

lemma extractName_run:
  assumes "extractName E d name0 opInfo h = (r, w)"
  shows "(\<forall>ev\<in>set w. finishEvent ev \<and> requestOf ev = None \<and> operationOf ev = None)
    \<and> (\<forall>d' n res. GetInstanceEv d' n res \<in> set w \<longrightarrow> r = Inr (d', n))
    \<and> (Mapping.lookup (Resources opInfo) ''containers'' = None
         \<or> Mapping.lookup (Resources opInfo) ''containers'' = Some [] \<longrightarrow>
        r = Inl (Error (''Didn'' @ quote
              @ ''t get any affected image, container or snapshot from server'')) \<and> w = [])
    \<and> (\<forall>path. Mapping.lookup (Resources opInfo) ''containers'' = Some [path] \<and> name0 = '''' \<longrightarrow>
        r = Inr (d, lastSegment path)
        \<and> Stdout (''Container name is: '' @ lastSegment path @ newline) \<in> set w)"
  using assms
  by (auto simp: extractName_def checkNetwork_run Split_last_index_Suc bindE_def returnE_def
      failE_def Printf_def emit_def Let_def
      split: option.splits if_splits sum.splits)

subsection \<open>The three parts of \<open>create\<close>\<close>

lemma create_cases:
  assumes "create c E cf args h = (r, evs)"
  obtains (prepare_failed) e where "prepare c E cf args h = (Inl e, evs)" and "r = Inl e"
  | (submit_failed) d remote iremote img name req w0 e w1
    where "prepare c E cf args h = (Inr (d, remote, iremote, img, name, req), w0)"
      and "(if \<not> flagEmpty c then createFromImage E cf d remote iremote img req
            else createEmpty E d req) (h @ w0) = (Inl e, w1)"
      and "r = Inl e" and "evs = w0 @ w1"
  | (submitted) d remote iremote img name req w0 opInfo w1 w2
    where "prepare c E cf args h = (Inr (d, remote, iremote, img, name, req), w0)"
      and "(if \<not> flagEmpty c then createFromImage E cf d remote iremote img req
            else createEmpty E d req) (h @ w0) = (Inr opInfo, w1)"
      and "extractName E d name opInfo (h @ w0 @ w1) = (r, w2)"
      and "evs = w0 @ w1 @ w2"
proof -
  from assms [unfolded create_def] show thesis
  proof (cases rule: bindE_cases)
    case (err e)
    then show ?thesis by (rule prepare_failed)
  next
    case (ok x w0 w')
    obtain d remote iremote img name req where x: "x = (d, remote, iremote, img, name, req)"
      by (cases x)
    from ok(2) x
    have "bindE (if \<not> flagEmpty c then createFromImage E cf d remote iremote img req
                 else createEmpty E d req)
            (\<lambda>opInfo. extractName E d name opInfo) (h @ w0) = (r, w')"
      by simp
    then show ?thesis
    proof (cases rule: bindE_cases)
      case (err e)
      with ok(1,3) x show ?thesis by (intro submit_failed) auto
    next
      case inner: (ok opInfo w1 w2)
      have "prepare c E cf args h = (Inr (d, remote, iremote, img, name, req), w0)"
        using ok(1) x by simp
      moreover have "extractName E d name opInfo (h @ w0 @ w1) = (r, w2)"
        using inner(2) by simp
      moreover have "evs = w0 @ w1 @ w2"
        using ok(3) inner(3) by simp
      ultimately show ?thesis
        using inner(1) by (intro submitted)
    qed
  qed
qed

section \<open>Image resolution: \<open>guessImage\<close>\<close>

text \<open>
  Claim C3. When an image alias named exactly \<open>t\<close> resolves on the target server and the
  source and target remotes are equal, \<open>guessImage\<close> returns \<open>(sourceRemote, t)\<close>
  unchanged, also when the part of \<open>t\<close> before the first slash names a configured
  remote: the alias probe comes before the reinterpretation as a remote name. The only
  event is the alias probe itself, made when that part names a configured remote; no
  advisory is printed.
\<close>

theorem guessImage_alias_first:
  assumes "getImageAlias E h d t = Inr a"
  shows "guessImage E cf d remote remote t h =
     (Inr (remote, t),
      if Mapping.lookup (Remotes cf) (SplitN t (CHR ''/'') 2 ! 0) = None then []
      else [GetImageAliasEv d t (Inr a)])"
  using assms
  by (simp add: guessImage_def Let_def bindE_def tryE_def GetImageAlias_def returnE_def
      split: option.splits)

theorem guessImage_alias_first_witness:
  "getImageAlias aliasEnv [] (InstanceServer ''local'') ''images/focal'' = Inr \<lparr>Target = ''fp1''\<rparr>
   \<and> guessImage aliasEnv testConfig (InstanceServer ''local'') ''local'' ''local''
         ''images/focal'' [] =
       (Inr (''local'', ''images/focal''),
        [GetImageAliasEv (InstanceServer ''local'') ''images/focal'' (Inr \<lparr>Target = ''fp1''\<rparr>)])"
proof -
  have h: "getImageAlias aliasEnv [] (InstanceServer ''local'') ''images/focal''
             = Inr \<lparr>Target = ''fp1''\<rparr>"
    by (simp add: fixture_defs)
  show ?thesis
    using h guessImage_alias_first [OF h, of testConfig "''local''"]
    by (simp add: testConfig_def numeral_2_eq_2 lookup_of_alist)
qed

text \<open>
  Claim C2. Let \<open>remoteA\<close> name a configured remote (the part of the token before its
  first slash, so \<open>remoteA\<close> has no slash itself), let the source and target remotes be
  equal, and let neither the alias lookup nor the fingerprint lookup of the token
  succeed on the target server. Then for the token \<open>remoteA/rest\<close> \<open>guessImage\<close>
  returns \<open>(remoteA, rest)\<close>, and for the token \<open>remoteA\<close> it returns
  \<open>(remoteA, default)\<close>; both times it makes the two lookups and then prints one
  advisory line on the error channel.
\<close>

theorem guessImage_reinterprets:
  assumes "Mapping.lookup (Remotes cf) remoteA = Some r" and "CHR ''/'' \<notin> set remoteA"
    and "getImageAlias E h d t = Inl e1"
    and "getImage E (h @ [GetImageAliasEv d t (Inl e1)]) d t = Inl e2"
  shows "(t = remoteA @ ''/'' @ rest \<longrightarrow>
      guessImage E cf d remote remote t h =
        (Inr (remoteA, rest),
         [GetImageAliasEv d t (Inl e1), GetImageEv d t (Inl e2),
          Stderr (''The local image '' @ quote @ t @ quote @ '' couldn'' @ quote
            @ ''t be found, trying '' @ quote @ remoteA @ '':'' @ rest @ quote
            @ '' instead.'' @ newline)]))
    \<and> (t = remoteA \<longrightarrow>
      guessImage E cf d remote remote t h =
        (Inr (remoteA, ''default''),
         [GetImageAliasEv d t (Inl e1), GetImageEv d t (Inl e2),
          Stderr (''The local image '' @ quote @ t @ quote @ '' couldn'' @ quote
            @ ''t be found, trying '' @ quote @ remoteA @ '':'' @ quote
            @ '' instead.'' @ newline)]))"
  using assms
  by (auto simp add: guessImage_def Let_def bindE_def tryE_def GetImageAlias_def GetImage_def
      returnE_def Fprintf_Stderr_def emit_def SplitN_2_sep SplitN_2_nosep)

theorem guessImage_reinterprets_witness:
  "Mapping.lookup (Remotes testConfig) ''images'' = Some \<lparr>Protocol = ''simplestreams''\<rparr>
   \<and> CHR ''/'' \<notin> set ''images''
   \<and> getImageAlias missingEnv [] (InstanceServer ''local'') ''images/focal''
       = Inl (Error ''not found'')
   \<and> getImage missingEnv
         [GetImageAliasEv (InstanceServer ''local'') ''images/focal'' (Inl (Error ''not found''))]
         (InstanceServer ''local'') ''images/focal''
       = Inl (Error ''not found'')
   \<and> guessImage missingEnv testConfig (InstanceServer ''local'') ''local'' ''local''
       ''images/focal'' [] =
     (Inr (''images'', ''focal''),
      [GetImageAliasEv (InstanceServer ''local'') ''images/focal'' (Inl (Error ''not found'')),
       GetImageEv (InstanceServer ''local'') ''images/focal'' (Inl (Error ''not found'')),
       Stderr (''The local image '' @ quote @ ''images/focal'' @ quote @ '' couldn'' @ quote
         @ ''t be found, trying '' @ quote @ ''images:focal'' @ quote @ '' instead.'' @ newline)])
   \<and> guessImage missingEnv testConfig (InstanceServer ''local'') ''local'' ''local''
       ''images'' [] =
     (Inr (''images'', ''default''),
      [GetImageAliasEv (InstanceServer ''local'') ''images'' (Inl (Error ''not found'')),
       GetImageEv (InstanceServer ''local'') ''images'' (Inl (Error ''not found'')),
       Stderr (''The local image '' @ quote @ ''images'' @ quote @ '' couldn'' @ quote
         @ ''t be found, trying '' @ quote @ ''images:'' @ quote @ '' instead.'' @ newline)])"
proof -
  have r: "Mapping.lookup (Remotes testConfig) ''images'' = Some \<lparr>Protocol = ''simplestreams''\<rparr>"
    by (simp add: testConfig_def lookup_of_alist)
  have s: "CHR ''/'' \<notin> set ''images''" by simp
  have a: "getImageAlias missingEnv [] (InstanceServer ''local'') t = Inl (Error ''not found'')"
    for t
    by (simp add: fixture_defs)
  have g: "getImage missingEnv
             ([] @ [GetImageAliasEv (InstanceServer ''local'') t (Inl (Error ''not found''))])
             (InstanceServer ''local'') t = Inl (Error ''not found'')" for t
    by (simp add: fixture_defs)
  show ?thesis
    using r a [of "''images/focal''"] g [of "''images/focal''"]
      guessImage_reinterprets [OF r s a g, of "''images/focal''" "''focal''" "''local''"]
      guessImage_reinterprets [OF r s a g, of "''images''" "''focal''" "''local''"]
    by simp
qed

section \<open>The creation request\<close>

subsection \<open>Requests in the trace of \<open>create\<close>\<close>

lemma prepareEvent_reads:
  "prepareEvent ev \<Longrightarrow> requestOf ev = None \<and> operationOf ev = None
     \<and> (\<forall>d n res. ev \<noteq> GetInstanceEv d n res) \<and> \<not> isImageLookup ev"
  by (cases ev) auto

lemma submitEvent_reads: "submitEvent ev \<Longrightarrow> (\<forall>d n res. ev \<noteq> GetInstanceEv d n res)"
  by (cases ev) auto

lemma prepare_events:
  "prepare c E cf args h = (r, w) \<Longrightarrow> ev \<in> set w \<Longrightarrow> prepareEvent ev"
  using ensuresD [OF prepare_ensures] by blast

lemma same_but_Source:
  "req\<lparr>Source := s\<rparr> = req0
   \<Longrightarrow> Devices req = Devices req0 \<and> Profiles req = Profiles req0 \<and> Name req = Name req0
     \<and> Config req = Config req0"
  by (cases req; cases req0) auto

lemma create_requests:
  assumes "create c E cf args h = (r, evs)" and "ev \<in> set evs" and "requestOf ev = Some req"
  shows "\<exists>d remote iremote img name req0 w0.
           prepare c E cf args h = (Inr (d, remote, iremote, img, name, req0), w0)
           \<and> req\<lparr>Source := Source req0\<rparr> = req0"
  using assms(1)
proof (cases rule: create_cases)
  case (prepare_failed e)
  with assms(2,3) show ?thesis
    using prepare_events prepareEvent_reads by fastforce
next
  case (submit_failed d remote iremote img name req0 w0 e w1)
  from assms(2,3) submit_failed(4) prepare_events [OF submit_failed(1)] prepareEvent_reads
  have "ev \<in> set w1" by fastforce
  with submit_run [OF submit_failed(2)] assms(3) submit_failed(1) show ?thesis by blast
next
  case (submitted d remote iremote img name req0 w0 opInfo w1 w2)
  from assms(2,3) submitted(4) prepare_events [OF submitted(1)] prepareEvent_reads
    extractName_run [OF submitted(3)]
  have "ev \<in> set w1" by fastforce
  with submit_run [OF submitted(2)] assms(3) submitted(1) show ?thesis by blast
qed

subsection \<open>Devices and profiles\<close>

text \<open>
  Claim C1. When a storage pool flag is given, the request that \<open>create\<close> builds, and
  with it the request of every creation call it makes, has
  \<open>devices["root"] = {type: disk, path: "/", pool: <the flag's pool>}\<close>, whatever
  structured input supplied for \<open>root\<close> and whatever the network flag inserted: the
  entry is set after both, and nothing on the way to the creation call changes the
  devices. (A request exists only when the pool lookup succeeded.)
\<close>

theorem storage_override_root:
  assumes "flagStorage c \<noteq> ''''"
  shows "(prepare c E cf args h = (Inr (d, remote, iremote, img, name, req0), w) \<longrightarrow>
            Mapping.lookup (Devices req0) ''root'' =
              Some (Mapping.of_alist
                      [(''type'', ''disk''), (''path'', ''/''), (''pool'', flagStorage c)]))
       \<and> (create c E cf args h = (r, evs) \<longrightarrow>
            (\<forall>ev\<in>set evs. \<forall>req. requestOf ev = Some req \<longrightarrow>
               Mapping.lookup (Devices req) ''root'' =
                 Some (Mapping.of_alist
                         [(''type'', ''disk''), (''path'', ''/''), (''pool'', flagStorage c)])))"
proof (intro conjI impI ballI allI)
  assume "prepare c E cf args h = (Inr (d, remote, iremote, img, name, req0), w)"
  from ensuresD [OF prepare_ensures this] assms
  show "Mapping.lookup (Devices req0) ''root'' =
          Some (Mapping.of_alist
                  [(''type'', ''disk''), (''path'', ''/''), (''pool'', flagStorage c)])"
    by auto
next
  fix ev req
  assume run: "create c E cf args h = (r, evs)" and ev: "ev \<in> set evs"
    and req: "requestOf ev = Some req"
  from create_requests [OF run ev req]
  obtain d' remote' iremote' img' name' req' w'
    where p: "prepare c E cf args h = (Inr (d', remote', iremote', img', name', req'), w')"
      and s: "req\<lparr>Source := Source req'\<rparr> = req'"
    by (elim exE conjE)
  from ensuresD [OF prepare_ensures p] assms
  have "Mapping.lookup (Devices req') ''root'' =
          Some (Mapping.of_alist
                  [(''type'', ''disk''), (''path'', ''/''), (''pool'', flagStorage c)])"
    by auto
  with same_but_Source [OF s]
  show "Mapping.lookup (Devices req) ''root'' =
          Some (Mapping.of_alist
                  [(''type'', ''disk''), (''path'', ''/''), (''pool'', flagStorage c)])"
    by simp
qed

lemma storageCmd_run:
  "create storageCmd testEnv testConfig [''img'', ''c1''] [] =
     (Inr (InstanceServer ''local'', ''c1''),
      snd (create storageCmd testEnv testConfig [''img'', ''c1''] []))
   \<and> (\<exists>ev\<in>set (snd (create storageCmd testEnv testConfig [''img'', ''c1''] [])).
         requestOf ev \<noteq> None)
   \<and> GetNetworkEv (InstanceServer ''local'') ''root'' (Inr \<lparr>Network.Type = ''bridge''\<rparr>)
       \<in> set (snd (create storageCmd testEnv testConfig [''img'', ''c1''] []))
   \<and> Mapping.lookup (Devices testStdin) ''root''
       = Some (Mapping.of_alist [(''type'', ''disk''), (''path'', ''/''), (''pool'', ''other'')])"
  by code_simp

theorem storage_override_root_witness:
  "flagStorage storageCmd \<noteq> ''''
   \<and> Mapping.lookup (Devices testStdin) ''root''
       = Some (Mapping.of_alist [(''type'', ''disk''), (''path'', ''/''), (''pool'', ''other'')])
   \<and> (\<exists>ev\<in>set (snd (create storageCmd testEnv testConfig [''img'', ''c1''] [])).
         requestOf ev \<noteq> None
         \<and> Mapping.lookup (Devices (the (requestOf ev))) ''root'' =
             Some (Mapping.of_alist [(''type'', ''disk''), (''path'', ''/''), (''pool'', ''pool1'')]))"
proof -
  have f: "flagStorage storageCmd \<noteq> ''''"
    by (simp add: storageCmd_def testCmd_def)
  have p: "flagStorage storageCmd = ''pool1''"
    by (simp add: storageCmd_def testCmd_def)
  obtain r evs where run: "create storageCmd testEnv testConfig [''img'', ''c1''] [] = (r, evs)"
    by (cases "create storageCmd testEnv testConfig [''img'', ''c1''] []")
  with storageCmd_run obtain ev req where ev: "ev \<in> set evs" "requestOf ev = Some req"
    by auto
  from storage_override_root
         [OF f, of testEnv testConfig "[''img'', ''c1'']" "[]" _ _ _ _ _ _ _ r evs] run ev p
  have "Mapping.lookup (Devices req) ''root'' =
          Some (Mapping.of_alist [(''type'', ''disk''), (''path'', ''/''), (''pool'', ''pool1'')])"
    by simp
  with ev run f storageCmd_run show ?thesis by auto
qed

text \<open>
  Claim C4. The profiles of the request, and of every creation call: with
  \<open>--no-profiles\<close> or at least one profile flag they are exactly the list of profile
  flags (the empty list when there is none, whatever structured input supplied);
  otherwise they are the profiles of structured input when it supplied at least one,
  and unset (nil, not the empty list) when it supplied none, be it no \<open>profiles\<close> key
  or an empty list.
\<close>

theorem profiles_precedence:
  assumes "readStdin E h = (Inr stdinData, w0)"
  shows "(prepare c E cf args h = (Inr (d, remote, iremote, img, name, req0), w) \<longrightarrow>
            Profiles req0 =
              (if flagNoProfiles c \<or> flagProfile c \<noteq> [] then Some (flagProfile c)
               else if len (Profiles stdinData) > 0 then Profiles stdinData else None))
       \<and> (create c E cf args h = (r, evs) \<longrightarrow>
            (\<forall>ev\<in>set evs. \<forall>req. requestOf ev = Some req \<longrightarrow>
               Profiles req =
                 (if flagNoProfiles c \<or> flagProfile c \<noteq> [] then Some (flagProfile c)
                  else if len (Profiles stdinData) > 0 then Profiles stdinData else None)))"
proof -
  have prep: "Profiles req' =
        (if flagNoProfiles c \<or> flagProfile c \<noteq> [] then Some (flagProfile c)
         else if len (Profiles stdinData) > 0 then Profiles stdinData else None)"
    if "prepare c E cf args h = (Inr (d', remote', iremote', img', name', req'), w')"
    for d' remote' iremote' img' name' req' w'
    using ensuresD [OF prepare_ensures that] assms by auto
  show ?thesis
  proof (intro conjI impI ballI allI)
    assume "prepare c E cf args h = (Inr (d, remote, iremote, img, name, req0), w)"
    then show "Profiles req0 =
        (if flagNoProfiles c \<or> flagProfile c \<noteq> [] then Some (flagProfile c)
         else if len (Profiles stdinData) > 0 then Profiles stdinData else None)"
      by (rule prep)
  next
    fix ev req
    assume run: "create c E cf args h = (r, evs)" and ev: "ev \<in> set evs"
      and req: "requestOf ev = Some req"
    from create_requests [OF run ev req]
    obtain d' remote' iremote' img' name' req' w'
      where p: "prepare c E cf args h = (Inr (d', remote', iremote', img', name', req'), w')"
        and s: "req\<lparr>Source := Source req'\<rparr> = req'"
      by (elim exE conjE)
    from prep [OF p] same_but_Source [OF s]
    show "Profiles req =
        (if flagNoProfiles c \<or> flagProfile c \<noteq> [] then Some (flagProfile c)
         else if len (Profiles stdinData) > 0 then Profiles stdinData else None)"
      by simp
  qed
qed

lemma profiles_runs:
  "readStdin testEnv [] = (Inr testStdin, [])"
  "readStdin terminalEnv [] = (Inr zeroInstancePut, [])"
  "\<exists>ev\<in>set (snd (create noProfilesCmd testEnv testConfig [''img'', ''c1''] [])).
      requestOf ev \<noteq> None"
  "\<exists>ev\<in>set (snd (create testCmd testEnv testConfig [''img'', ''c1''] [])).
      requestOf ev \<noteq> None"
  "\<exists>ev\<in>set (snd (create testCmd terminalEnv testConfig [''img'', ''c1''] [])).
      requestOf ev \<noteq> None"
  by code_simp+

theorem profiles_precedence_witness:
  "readStdin testEnv [] = (Inr testStdin, []) \<and> Profiles testStdin = Some [''web'']
   \<and> (\<exists>ev\<in>set (snd (create noProfilesCmd testEnv testConfig [''img'', ''c1''] [])).
         requestOf ev \<noteq> None \<and> Profiles (the (requestOf ev)) = Some [])
   \<and> (\<exists>ev\<in>set (snd (create testCmd testEnv testConfig [''img'', ''c1''] [])).
         requestOf ev \<noteq> None \<and> Profiles (the (requestOf ev)) = Some [''web''])
   \<and> readStdin terminalEnv [] = (Inr zeroInstancePut, [])
   \<and> (\<exists>ev\<in>set (snd (create testCmd terminalEnv testConfig [''img'', ''c1''] [])).
         requestOf ev \<noteq> None \<and> Profiles (the (requestOf ev)) = None)"
proof -
  obtain r1 evs1
    where run1: "create noProfilesCmd testEnv testConfig [''img'', ''c1''] [] = (r1, evs1)"
    by (cases "create noProfilesCmd testEnv testConfig [''img'', ''c1''] []")
  with profiles_runs(3) obtain ev1 req1 where ev1: "ev1 \<in> set evs1" "requestOf ev1 = Some req1"
    by auto
  obtain r2 evs2
    where run2: "create testCmd testEnv testConfig [''img'', ''c1''] [] = (r2, evs2)"
    by (cases "create testCmd testEnv testConfig [''img'', ''c1''] []")
  with profiles_runs(4) obtain ev2 req2 where ev2: "ev2 \<in> set evs2" "requestOf ev2 = Some req2"
    by auto
  obtain r3 evs3
    where run3: "create testCmd terminalEnv testConfig [''img'', ''c1''] [] = (r3, evs3)"
    by (cases "create testCmd terminalEnv testConfig [''img'', ''c1''] []")
  with profiles_runs(5) obtain ev3 req3 where ev3: "ev3 \<in> set evs3" "requestOf ev3 = Some req3"
    by auto
  from profiles_precedence [OF profiles_runs(1),
      of noProfilesCmd testConfig "[''img'', ''c1'']" _ _ _ _ _ _ _ r1 evs1] run1 ev1
  have "Profiles req1 = Some []"
    by (simp add: noProfilesCmd_def testCmd_def)
  moreover
  from profiles_precedence [OF profiles_runs(1),
      of testCmd testConfig "[''img'', ''c1'']" _ _ _ _ _ _ _ r2 evs2] run2 ev2
  have "Profiles req2 = Some [''web'']"
    by (simp add: testCmd_def testStdin_def len_def)
  moreover
  from profiles_precedence [OF profiles_runs(2),
      of testCmd testConfig "[''img'', ''c1'']" _ _ _ _ _ _ _ r3 evs3] run3 ev3
  have "Profiles req3 = None"
    by (simp add: testCmd_def zeroInstancePut_def len_def)
  ultimately show ?thesis
    using run1 run2 run3 ev1 ev2 ev3 profiles_runs(1,2)
    by (auto simp: testStdin_def)
qed

section \<open>After the creation call\<close>

lemma hasNic_iff:
  "hasNic devs \<longleftrightarrow>
     (\<exists>key dev. Mapping.lookup devs key = Some dev \<and> Mapping.lookup dev ''type'' = Some ''nic'')"
  by (auto simp: hasNic_def keys_dom_lookup split: option.splits)

lemma create_GetInstance:
  assumes "create c E cf args h = (r, evs)" and "GetInstanceEv d n res \<in> set evs"
  shows "r = Inr (d, n)"
  using assms(1)
proof (cases rule: create_cases)
  case (prepare_failed e)
  with assms(2) show ?thesis
    using prepare_events prepareEvent_reads by blast
next
  case (submit_failed d' remote iremote img name req0 w0 e w1)
  from prepare_events [OF submit_failed(1)] prepareEvent_reads
  have "GetInstanceEv d n res \<notin> set w0" by blast
  moreover from submit_run [OF submit_failed(2)] submitEvent_reads
  have "GetInstanceEv d n res \<notin> set w1" by blast
  ultimately show ?thesis using assms(2) submit_failed(4) by simp
next
  case (submitted d' remote iremote img name req0 w0 opInfo w1 w2)
  from prepare_events [OF submitted(1)] prepareEvent_reads
  have "GetInstanceEv d n res \<notin> set w0" by blast
  moreover from submit_run [OF submitted(2)] submitEvent_reads
  have "GetInstanceEv d n res \<notin> set w1" by blast
  ultimately have "GetInstanceEv d n res \<in> set w2" using assms(2) submitted(4) by simp
  with extractName_run [OF submitted(3)] show ?thesis by blast
qed

text \<open>
  Claim C9. The network check never fails: \<open>checkNetwork\<close> always returns normally; when
  fetching the created instance fails it adds nothing to the lookup itself (no output,
  no error); when the fetch succeeds and no expanded device has type \<open>nic\<close> it prints
  the advisory on the error channel; and every run of \<open>create\<close> that reaches the check
  (a \<open>GetInstance\<close> lookup is in its trace) returns success, with the server and the
  name the check was made for.
\<close>

theorem checkNetwork_never_fails:
  "fst (checkNetwork E d name h) = Inr ()
   \<and> (getInstance E h d name = Inl e \<longrightarrow>
        snd (checkNetwork E d name h) = [GetInstanceEv d name (Inl e)])
   \<and> (getInstance E h d name = Inr ct
        \<and> (\<forall>key dev. Mapping.lookup (ExpandedDevices ct) key = Some dev \<longrightarrow>
              Mapping.lookup dev ''type'' \<noteq> Some ''nic'') \<longrightarrow>
        snd (checkNetwork E d name h) =
          [GetInstanceEv d name (Inr ct),
           Stderr (newline @ ''The container you are starting doesn'' @ quote
             @ ''t have any network attached to it.'' @ newline),
           Stderr (''  '' @ ''To create a new network, use: lxc network create'' @ newline),
           Stderr (''  '' @ ''To attach a network to a container, use: lxc network attach''
             @ newline @ newline)])
   \<and> (create c E cf args h0 = (r, evs) \<and> GetInstanceEv d' n res \<in> set evs \<longrightarrow>
        r = Inr (d', n))"
  using create_GetInstance [of c E cf args h0 r evs d' n res]
  by (auto simp: checkNetwork_run hasNic_iff)

lemma checkNetwork_runs:
  "getInstance unreachableEnv [] (InstanceServer ''local'') ''c1'' = Inl (Error ''not found'')"
  "getInstance testEnv [] (InstanceServer ''local'') ''c1'' = Inr \<lparr>ExpandedDevices = Mapping.empty\<rparr>"
  "GetInstanceEv (InstanceServer ''local'') ''c1'' (Inl (Error ''not found''))
     \<in> set (snd (create testCmd unreachableEnv testConfig [''img'', ''c1''] []))"
  by code_simp+

theorem checkNetwork_never_fails_witness:
  "getInstance unreachableEnv [] (InstanceServer ''local'') ''c1'' = Inl (Error ''not found'')
   \<and> checkNetwork unreachableEnv (InstanceServer ''local'') ''c1'' [] =
       (Inr (), [GetInstanceEv (InstanceServer ''local'') ''c1'' (Inl (Error ''not found''))])
   \<and> getInstance testEnv [] (InstanceServer ''local'') ''c1''
       = Inr \<lparr>ExpandedDevices = Mapping.empty\<rparr>
   \<and> checkNetwork testEnv (InstanceServer ''local'') ''c1'' [] =
       (Inr (),
        [GetInstanceEv (InstanceServer ''local'') ''c1'' (Inr \<lparr>ExpandedDevices = Mapping.empty\<rparr>),
         Stderr (newline @ ''The container you are starting doesn'' @ quote
           @ ''t have any network attached to it.'' @ newline),
         Stderr (''  '' @ ''To create a new network, use: lxc network create'' @ newline),
         Stderr (''  '' @ ''To attach a network to a container, use: lxc network attach''
           @ newline @ newline)])
   \<and> GetInstanceEv (InstanceServer ''local'') ''c1'' (Inl (Error ''not found''))
       \<in> set (snd (create testCmd unreachableEnv testConfig [''img'', ''c1''] []))
   \<and> fst (create testCmd unreachableEnv testConfig [''img'', ''c1''] [])
       = Inr (InstanceServer ''local'', ''c1'')"
proof -
  obtain r evs where run: "create testCmd unreachableEnv testConfig [''img'', ''c1''] [] = (r, evs)"
    by (cases "create testCmd unreachableEnv testConfig [''img'', ''c1''] []")
  have nonic: "\<forall>key dev. Mapping.lookup (ExpandedDevices \<lparr>ExpandedDevices = Mapping.empty\<rparr>) key
                 = Some dev \<longrightarrow> Mapping.lookup dev ''type'' \<noteq> Some ''nic''"
    by simp
  from checkNetwork_never_fails [of unreachableEnv "InstanceServer ''local''" "''c1''" "[]"
      "Error ''not found''" _ testCmd testConfig "[''img'', ''c1'']" "[]" r evs
      "InstanceServer ''local''" "''c1''" "Inl (Error ''not found'')"]
    checkNetwork_never_fails [of testEnv "InstanceServer ''local''" "''c1''" "[]"
      _ "\<lparr>ExpandedDevices = Mapping.empty\<rparr>"]
    checkNetwork_runs run nonic
  show ?thesis
    by (simp add: prod_eq_iff)
qed

text \<open>
  Claim C10. When the creation completed (its operation is in the trace) but the
  operation's resource map has no \<open>containers\<close> key, or an empty list under it, \<open>create\<close>
  returns the error "Didn't get any affected image, container or snapshot from server".
  When exactly one container is listed and the user gave no name (the variable \<open>name\<close>
  is empty after the arguments are parsed), \<open>create\<close> returns, and prints as the
  container name, the last slash-separated segment of that resource path.
\<close>

theorem missing_container_resource:
  assumes "create c E cf args h = (r, evs)" and "ev \<in> set evs"
    and "operationOf ev = Some opInfo"
  shows "(Mapping.lookup (Resources opInfo) ''containers'' = None
          \<or> Mapping.lookup (Resources opInfo) ''containers'' = Some [] \<longrightarrow>
            r = Inl (Error (''Didn'' @ quote
                  @ ''t get any affected image, container or snapshot from server'')))
       \<and> (Mapping.lookup (Resources opInfo) ''containers'' = Some [path]
          \<and> prepare c E cf args h = (Inr (d, remote, iremote, img, '''', req), w) \<longrightarrow>
            r = Inr (d, lastSegment path)
            \<and> Stdout (''Container name is: '' @ lastSegment path @ newline) \<in> set evs)"
  using assms(1)
proof (cases rule: create_cases)
  case (prepare_failed e)
  with assms(2,3) show ?thesis
    using prepare_events prepareEvent_reads by fastforce
next
  case (submit_failed d' remote' iremote' img' name' req0 w0 e w1)
  from assms(2,3) submit_failed(4) prepare_events [OF submit_failed(1)] prepareEvent_reads
  have "ev \<in> set w1" by fastforce
  with submit_run [OF submit_failed(2)] assms(3) show ?thesis by blast
next
  case (submitted d' remote' iremote' img' name' req0 w0 opInfo' w1 w2)
  from assms(2,3) submitted(4) prepare_events [OF submitted(1)] prepareEvent_reads
    extractName_run [OF submitted(3)]
  have "ev \<in> set w1" by fastforce
  with submit_run [OF submitted(2)] assms(3) have same: "opInfo' = opInfo" by blast
  from extractName_run [OF submitted(3)] same submitted(1,4)
  show ?thesis by auto
qed

lemma missing_container_runs:
  "GetTargetEv (Inr \<lparr>Resources = Mapping.empty\<rparr>)
     \<in> set (snd (create testCmd noResourceEnv testConfig [''img'', ''c1''] []))"
  "GetTargetEv (Inr testOperation) \<in> set (snd (create testCmd testEnv testConfig [''img''] []))"
  "Mapping.lookup (Resources testOperation) ''containers'' = Some [''/1.0/containers/c1'']"
  "fst (prepare testCmd testEnv testConfig [''img''] []) =
     Inr (InstanceServer ''local'', ''local'', ''local'', ''img'', '''',
          snd (snd (snd (snd (snd (projr (fst (prepare testCmd testEnv testConfig [''img''] []))))))))"
  "lastSegment ''/1.0/containers/c1'' = ''c1''"
  by code_simp+

theorem missing_container_resource_witness:
  "GetTargetEv (Inr \<lparr>Resources = Mapping.empty\<rparr>)
     \<in> set (snd (create testCmd noResourceEnv testConfig [''img'', ''c1''] []))
   \<and> operationOf (GetTargetEv (Inr \<lparr>Resources = Mapping.empty\<rparr>))
       = Some \<lparr>Resources = Mapping.empty\<rparr>
   \<and> Mapping.lookup (Resources \<lparr>Resources = Mapping.empty\<rparr>) ''containers'' = None
   \<and> fst (create testCmd noResourceEnv testConfig [''img'', ''c1''] []) =
       Inl (Error (''Didn'' @ quote
         @ ''t get any affected image, container or snapshot from server''))
   \<and> GetTargetEv (Inr testOperation) \<in> set (snd (create testCmd testEnv testConfig [''img''] []))
   \<and> Mapping.lookup (Resources testOperation) ''containers'' = Some [''/1.0/containers/c1'']
   \<and> fst (create testCmd testEnv testConfig [''img''] []) = Inr (InstanceServer ''local'', ''c1'')
   \<and> Stdout (''Container name is: '' @ ''c1'' @ newline)
       \<in> set (snd (create testCmd testEnv testConfig [''img''] []))"
proof -
  obtain r1 evs1
    where run1: "create testCmd noResourceEnv testConfig [''img'', ''c1''] [] = (r1, evs1)"
    by (cases "create testCmd noResourceEnv testConfig [''img'', ''c1''] []")
  obtain r2 evs2 where run2: "create testCmd testEnv testConfig [''img''] [] = (r2, evs2)"
    by (cases "create testCmd testEnv testConfig [''img''] []")
  obtain req w
    where prep: "prepare testCmd testEnv testConfig [''img''] [] =
                   (Inr (InstanceServer ''local'', ''local'', ''local'', ''img'', '''', req), w)"
    using missing_container_runs(4)
    by (cases "prepare testCmd testEnv testConfig [''img''] []") auto
  have ev1: "GetTargetEv (Inr \<lparr>Resources = Mapping.empty\<rparr>) \<in> set evs1"
    using missing_container_runs(1) run1 by simp
  have ev2: "GetTargetEv (Inr testOperation) \<in> set evs2"
    using missing_container_runs(2) run2 by simp
  have op1: "operationOf (GetTargetEv (Inr \<lparr>Resources = Mapping.empty\<rparr>))
               = Some \<lparr>Resources = Mapping.empty\<rparr>"
    by simp
  have op2: "operationOf (GetTargetEv (Inr testOperation)) = Some testOperation"
    by simp
  from missing_container_resource [OF run1 ev1 op1]
    missing_container_resource [OF run2 ev2 op2,
      of "''/1.0/containers/c1''" "InstanceServer ''local''" "''local''" "''local''" "''img''" req w]
    run1 run2 prep ev1 ev2 missing_container_runs(3,5)
  show ?thesis
    by simp
qed

section \<open>Arguments and the empty-instance flag\<close>

lemma handleEmpty_reject:
  "flagEmpty c \<Longrightarrow> length args > 1
   \<Longrightarrow> handleEmpty c cf args v =
         failE (Error ''--empty cannot be combined with an image name'')"
  by (cases v) (simp add: handleEmpty_def)

lemma prepare_reject:
  assumes "flagEmpty c" and "length args > 1"
  shows "prepare c E cf args h =
     (case fst (readStdin E []) of
        Inl e \<Rightarrow> (Inl e, [])
      | Inr sd \<Rightarrow>
          (case fst (parseArgs cf args []) of
             Inl e \<Rightarrow> (Inl e, [])
           | Inr v \<Rightarrow> (Inl (Error ''--empty cannot be combined with an image name''), [])))"
proof -
  have "prepare c E cf args h =
      bindE (readStdin E) (\<lambda>stdinData. bindE (parseArgs cf args) (\<lambda>v.
        failE (Error ''--empty cannot be combined with an image name''))) h"
    unfolding prepare_def
    by (simp add: handleEmpty_reject [OF assms] bindE_def failE_def)
  also have "\<dots> =
     (case fst (readStdin E []) of
        Inl e \<Rightarrow> (Inl e, [])
      | Inr sd \<Rightarrow>
          (case fst (parseArgs cf args []) of
             Inl e \<Rightarrow> (Inl e, [])
           | Inr v \<Rightarrow> (Inl (Error ''--empty cannot be combined with an image name''), [])))"
    using readStdin_local [of E h] parseArgs_local [of cf args h]
    by (simp add: bindE_def failE_def split: sum.splits prod.splits)
  finally show ?thesis .
qed

text \<open>
  Claim C5. With the empty-instance flag and two positional arguments (an image and a
  name) the workflow fails before any remote call: \<open>create\<close> returns an error with an
  empty trace, and so does \<open>Run\<close> when the argument check lets the arguments through.
  The error is "--empty cannot be combined with an image name" whenever reading the
  structured input and parsing the arguments succeed (both are local and come first).
\<close>

theorem empty_with_image_rejected:
  assumes "flagEmpty c" and "length args > 1"
  shows "(\<exists>e. create c E cf args h = (Inl e, []))
       \<and> snd (Run c E args h) = []
       \<and> (\<not> fst (CheckArgs E args 0 2) \<longrightarrow> (\<exists>e. fst (Run c E args h) = Inl e))
       \<and> ((stdinIsTerminal E
            \<or> (\<exists>contents sd. stdinReadAll E = Inr contents \<and> yamlUnmarshal E contents = Inr sd))
           \<and> (\<forall>a\<in>set args. \<exists>x. ParseRemote cf a = Inr x) \<longrightarrow>
           create c E cf args h =
             (Inl (Error ''--empty cannot be combined with an image name''), []))"
proof -
  have fails: "\<exists>e. create c' E cf' args h = (Inl e, [])" if "flagEmpty c'" for c' cf'
    unfolding create_def
    by (simp add: prepare_reject [OF that assms(2)] bindE_def split: sum.splits)
  have run: "snd (Run c E args h) = []
      \<and> (\<not> fst (CheckArgs E args 0 2) \<longrightarrow> (\<exists>e. fst (Run c E args h) = Inl e))"
    using fails [OF assms(1), of "conf (global c)"] assms(2)
    by (auto simp: Run_def liftE_def bindE_def split: prod.splits)
  have exact: "create c E cf args h =
        (Inl (Error ''--empty cannot be combined with an image name''), [])"
    if stdin: "stdinIsTerminal E
            \<or> (\<exists>contents sd. stdinReadAll E = Inr contents \<and> yamlUnmarshal E contents = Inr sd)"
      and parse: "\<forall>a\<in>set args. \<exists>x. ParseRemote cf a = Inr x"
  proof -
    from stdin have "\<exists>sd. fst (readStdin E []) = Inr sd"
      by (auto simp: readStdin_def bindE_def liftE_def returnE_def)
    moreover have "\<exists>v. fst (parseArgs cf args []) = Inr v"
    proof -
      from assms(2) obtain a b bs where args: "args = a # b # bs"
        by (cases args; cases "tl args") auto
      with parse obtain x y where "ParseRemote cf a = Inr x" "ParseRemote cf b = Inr y"
        by fastforce
      with args show ?thesis
        by (cases x; cases y) (simp add: parseArgs_def bindE_def liftE_def returnE_def)
    qed
    ultimately show ?thesis
      unfolding create_def
      by (auto simp: prepare_reject [OF assms] bindE_def)
  qed
  from fails [OF assms(1)] run exact show ?thesis by blast
qed

lemma emptyCmd_runs:
  "flagEmpty emptyCmd" "length [''img'', ''c1''] > 1"
  "stdinReadAll testEnv = Inr ''devices: ...''"
  "yamlUnmarshal testEnv ''devices: ...'' = Inr testStdin"
  "ParseRemote testConfig ''img'' = Inr (''local'', ''img'')"
  "ParseRemote testConfig ''c1'' = Inr (''local'', ''c1'')"
  "\<not> fst (CheckArgs testEnv [''img'', ''c1''] 0 2)"
  by code_simp+

theorem empty_with_image_rejected_witness:
  "flagEmpty emptyCmd \<and> length [''img'', ''c1''] > 1
   \<and> stdinReadAll testEnv = Inr ''devices: ...''
   \<and> yamlUnmarshal testEnv ''devices: ...'' = Inr testStdin
   \<and> ParseRemote testConfig ''img'' = Inr (''local'', ''img'')
   \<and> ParseRemote testConfig ''c1'' = Inr (''local'', ''c1'')
   \<and> create emptyCmd testEnv testConfig [''img'', ''c1''] [] =
       (Inl (Error ''--empty cannot be combined with an image name''), [])
   \<and> \<not> fst (CheckArgs testEnv [''img'', ''c1''] 0 2)
   \<and> snd (Run emptyCmd testEnv [''img'', ''c1''] []) = []"
  using empty_with_image_rejected [OF emptyCmd_runs(1,2), of testEnv testConfig "[]"]
    emptyCmd_runs
  by auto


lemma bindE_returnE: "bindE (returnE x) f h = f x h"
  by (simp add: bindE_def returnE_def split: prod.splits)

lemma bindE_local_Inr: "(\<And>h. m h = (Inr x, [])) \<Longrightarrow> bindE m f = f x"
  by (rule ext) (simp add: bindE_def split: prod.splits)

lemma bindE_first:
  "m h = (r0, ev # w1) \<Longrightarrow> \<exists>rest. snd (bindE m f h) = ev # rest"
  by (cases r0) (auto simp: bindE_def split: prod.splits)

lemma prepare_zero_args_first:
  assumes "flagEmpty c" and "ParseRemote cf '''' = Inr (rem, nm)"
    and "readStdin E h = (Inr sd, w0)"
  shows "\<exists>r0 rest. prepare c E cf [] h =
           (r0, GetInstanceServerEv rem (getInstanceServer E h rem) # rest)"
proof -
  have 1: "readStdin E h' = (Inr sd, [])" for h'
    using assms(3) readStdin_local [of E h] readStdin_local [of E h'] by simp
  have 2: "parseArgs cf [] h' = (Inr ('''', '''', '''', ''''), [])" for h'
    by (simp add: parseArgs_def returnE_def)
  have 3: "handleEmpty c cf [] ('''', '''', '''', '''') h' = (Inr ('''', '''', rem, nm), [])"
    for h'
    using assms(1,2) by (simp add: handleEmpty_def bindE_def liftE_def returnE_def)
  have "\<exists>k. prepare c E cf [] = bindE (GetInstanceServer E rem) k"
    unfolding prepare_def
      bindE_local_Inr [where m = "readStdin E", OF 1]
      bindE_local_Inr [where m = "parseArgs cf []", OF 2]
      bindE_local_Inr [where m = "handleEmpty c cf [] ('''', '''', '''', '''')", OF 3]
    apply (simp only: prod.case)
    apply (rule exI)
    apply (rule refl)
    done
  then obtain k where k: "prepare c E cf [] = bindE (GetInstanceServer E rem) k" ..
  have conn: "GetInstanceServer E rem h =
      (fst (GetInstanceServer E rem h), [GetInstanceServerEv rem (getInstanceServer E h rem)])"
    by (simp add: GetInstanceServer_def Let_def)
  from bindE_first [where m = "GetInstanceServer E rem", OF conn, of k] k
  show ?thesis by (cases "prepare c E cf [] h") auto
qed

lemma prepare_zero_args:
  assumes "flagEmpty c" and "ParseRemote cf '''' = Inr (rem, nm)"
    and "prepare c E cf [] h = (Inr (d, remote, iremote, img, name, req), w)"
  shows "remote = rem \<and> name = nm \<and> Name req = nm
     \<and> d = (if flagTarget c \<noteq> '''' then UseTarget (InstanceServer rem) (flagTarget c)
            else InstanceServer rem)"
proof -
  from ensuresD [OF prepare_ensures assms(3)]
  obtain v where v: "parseArgs cf [] [] = (Inr v, [])"
    and e: "handleEmpty c cf [] v [] = (Inr (iremote, img, remote, name), [])"
    and d: "d = (if flagTarget c \<noteq> '''' then UseTarget (InstanceServer remote) (flagTarget c)
                else InstanceServer remote)"
    and n: "Name req = name"
    by auto
  from v have "v = ('''', '''', '''', '''')" by (simp add: parseArgs_def returnE_def)
  with e assms(1,2) have "remote = rem" and "name = nm"
    by (simp_all add: handleEmpty_def bindE_def liftE_def returnE_def)
  with d n show ?thesis by simp
qed

lemma bindE_discard:
  "bindE m (\<lambda>_. returnE ()) h =
     (case fst (m h) of Inl e \<Rightarrow> Inl e | Inr x \<Rightarrow> Inr (), snd (m h))"
  by (cases "m h") (simp add: bindE_def returnE_def split: sum.splits)

lemma Run_zero_args_empty:
  assumes "flagEmpty c" and "\<not> fst (CheckArgs E [] 0 2)"
  shows "Run c E [] h =
     (case fst (create c E (conf (global c)) [] h) of Inl e \<Rightarrow> Inl e | Inr x \<Rightarrow> Inr (),
      snd (create c E (conf (global c)) [] h))"
  using assms
  by (cases "CheckArgs E [] 0 2") (simp add: Run_def bindE_discard)

text \<open>
  Claim C8. With zero positional arguments: without the empty-instance flag \<open>Run\<close>
  makes no remote call and provisions nothing (it prints the usage and returns without
  error, unless the argument check already ended the command); with the flag the remote
  and the name are the two results of parsing the empty remote token, that is, the
  configured defaults: \<open>create\<close> first connects to that remote, and the request it builds
  and every creation call it makes carry that name. With the flag, \<open>Run\<close> (once the
  argument check lets the empty argument list through) is exactly that run of \<open>create\<close>
  on the command's own configuration: it has the same trace, fails with the same error
  or succeeds with it, so \<open>Run\<close> itself first connects to the default remote and
  creates under the default name.
\<close>

theorem zero_arguments:
  "(\<not> flagEmpty c \<longrightarrow>
      (\<forall>ev\<in>set (snd (Run c E [] h)). \<not> is_remote_call ev \<and> requestOf ev = None)
      \<and> (\<not> fst (CheckArgs E [] 0 2) \<longrightarrow> Run c E [] h = (Inr (), [Stderr (usageText E)])))
   \<and> (flagEmpty c \<and> ParseRemote cf '''' = Inr (rem, nm) \<longrightarrow>
      (prepare c E cf [] h = (Inr (d, remote, iremote, img, name, req), w) \<longrightarrow>
         remote = rem \<and> name = nm \<and> Name req = nm
         \<and> d = (if flagTarget c \<noteq> '''' then UseTarget (InstanceServer rem) (flagTarget c)
                else InstanceServer rem))
      \<and> (readStdin E h = (Inr sd, w0) \<longrightarrow>
           (\<exists>rest. snd (create c E cf [] h)
              = GetInstanceServerEv rem (getInstanceServer E h rem) # rest))
      \<and> (\<forall>ev\<in>set (snd (create c E cf [] h)).
           \<forall>req'. requestOf ev = Some req' \<longrightarrow> Name req' = nm))
   \<and> (flagEmpty c \<and> \<not> fst (CheckArgs E [] 0 2) \<longrightarrow>
      Run c E [] h =
        (case fst (create c E (conf (global c)) [] h) of Inl e \<Rightarrow> Inl e | Inr x \<Rightarrow> Inr (),
         snd (create c E (conf (global c)) [] h))
      \<and> (ParseRemote (conf (global c)) '''' = Inr (remR, nmR) \<longrightarrow>
           (readStdin E h = (Inr sdR, wR) \<longrightarrow>
              (\<exists>rest. snd (Run c E [] h)
                 = GetInstanceServerEv remR (getInstanceServer E h remR) # rest))
           \<and> (\<forall>ev\<in>set (snd (Run c E [] h)).
                \<forall>req'. requestOf ev = Some req' \<longrightarrow> Name req' = nmR)))"
proof -
  have usage: "(\<forall>ev\<in>set (snd (Run c E [] h)). \<not> is_remote_call ev \<and> requestOf ev = None)
      \<and> (\<not> fst (CheckArgs E [] 0 2) \<longrightarrow> Run c E [] h = (Inr (), [Stderr (usageText E)]))"
    if "\<not> flagEmpty c"
    using that
    by (auto simp: Run_def liftE_def Fprintf_Stderr_def emit_def split: prod.splits)
  have first: "\<exists>rest. snd (create c E cf' [] h)
      = GetInstanceServerEv rem' (getInstanceServer E h rem') # rest"
    if "flagEmpty c" and "ParseRemote cf' '''' = Inr (rem', nm')"
      and "readStdin E h = (Inr sd', w0')" for cf' rem' nm' sd' w0'
  proof -
    from prepare_zero_args_first [OF that]
    obtain r0 rest0 where "prepare c E cf' [] h =
        (r0, GetInstanceServerEv rem' (getInstanceServer E h rem') # rest0)"
      by blast
    from bindE_first [where m = "prepare c E cf' []", OF this] show ?thesis
      unfolding create_def .
  qed
  have names: "\<forall>ev\<in>set (snd (create c E cf' [] h)).
      \<forall>req'. requestOf ev = Some req' \<longrightarrow> Name req' = nm'"
    if a: "flagEmpty c" "ParseRemote cf' '''' = Inr (rem', nm')" for cf' rem' nm'
  proof (intro ballI allI impI)
    fix ev req'
    assume ev: "ev \<in> set (snd (create c E cf' [] h))" and req: "requestOf ev = Some req'"
    obtain r evs where run: "create c E cf' [] h = (r, evs)" by (cases "create c E cf' [] h")
    with ev have "ev \<in> set evs" by simp
    from create_requests [OF run this req]
    obtain d' remote' iremote' img' name' req0 w'
      where p: "prepare c E cf' [] h = (Inr (d', remote', iremote', img', name', req0), w')"
        and s: "req'\<lparr>Source := Source req0\<rparr> = req0"
      by (elim exE conjE)
    from prepare_zero_args [OF a p] have "Name req0 = nm'" by blast
    with same_but_Source [OF s] show "Name req' = nm'" by simp
  qed
  have part1: "\<not> flagEmpty c \<longrightarrow>
      (\<forall>ev\<in>set (snd (Run c E [] h)). \<not> is_remote_call ev \<and> requestOf ev = None)
      \<and> (\<not> fst (CheckArgs E [] 0 2) \<longrightarrow> Run c E [] h = (Inr (), [Stderr (usageText E)]))"
    using usage by blast
  have part2: "flagEmpty c \<and> ParseRemote cf '''' = Inr (rem, nm) \<longrightarrow>
      (prepare c E cf [] h = (Inr (d, remote, iremote, img, name, req), w) \<longrightarrow>
         remote = rem \<and> name = nm \<and> Name req = nm
         \<and> d = (if flagTarget c \<noteq> '''' then UseTarget (InstanceServer rem) (flagTarget c)
                else InstanceServer rem))
      \<and> (readStdin E h = (Inr sd, w0) \<longrightarrow>
           (\<exists>rest. snd (create c E cf [] h)
              = GetInstanceServerEv rem (getInstanceServer E h rem) # rest))
      \<and> (\<forall>ev\<in>set (snd (create c E cf [] h)).
           \<forall>req'. requestOf ev = Some req' \<longrightarrow> Name req' = nm)"
    using first [of cf rem nm sd w0] names [of cf rem nm]
      prepare_zero_args [of c cf rem nm E h d remote iremote img name req w]
    by blast
  have part3: "Run c E [] h =
        (case fst (create c E (conf (global c)) [] h) of Inl e \<Rightarrow> Inl e | Inr x \<Rightarrow> Inr (),
         snd (create c E (conf (global c)) [] h))
      \<and> (ParseRemote (conf (global c)) '''' = Inr (remR, nmR) \<longrightarrow>
           (readStdin E h = (Inr sdR, wR) \<longrightarrow>
              (\<exists>rest. snd (Run c E [] h)
                 = GetInstanceServerEv remR (getInstanceServer E h remR) # rest))
           \<and> (\<forall>ev\<in>set (snd (Run c E [] h)).
                \<forall>req'. requestOf ev = Some req' \<longrightarrow> Name req' = nmR))"
    if e: "flagEmpty c" and ok: "\<not> fst (CheckArgs E [] 0 2)"
  proof -
    note run = Run_zero_args_empty [OF e ok, of h]
    then have tr: "snd (Run c E [] h) = snd (create c E (conf (global c)) [] h)"
      by simp
    from first [OF e, of "conf (global c)" remR nmR sdR wR]
      names [OF e, of "conf (global c)" remR nmR] run
    show ?thesis unfolding tr by blast
  qed
  from part1 part2 part3 show ?thesis by blast
qed

lemma zero_arguments_runs:
  "\<not> flagEmpty testCmd" "\<not> fst (CheckArgs testEnv [] 0 2)"
  "flagEmpty emptyCmd" "ParseRemote testConfig '''' = Inr (''local'', '''')"
  "readStdin testEnv [] = (Inr testStdin, [])"
  "getInstanceServer testEnv [] ''local'' = None"
  "\<exists>ev\<in>set (snd (create emptyCmd testEnv testConfig [] [])). requestOf ev \<noteq> None"
  "usageText testEnv = ''Usage: lxc init''"
  by code_simp+

lemma emptyCmd_conf: "conf (global emptyCmd) = testConfig"
  by (simp add: emptyCmd_def testCmd_def)

theorem zero_arguments_witness:
  "\<not> flagEmpty testCmd \<and> \<not> fst (CheckArgs testEnv [] 0 2)
   \<and> Run testCmd testEnv [] [] = (Inr (), [Stderr ''Usage: lxc init''])
   \<and> flagEmpty emptyCmd \<and> ParseRemote testConfig '''' = Inr (''local'', '''')
   \<and> readStdin testEnv [] = (Inr testStdin, [])
   \<and> (\<exists>rest. snd (create emptyCmd testEnv testConfig [] [])
         = GetInstanceServerEv ''local'' None # rest)
   \<and> (\<exists>ev\<in>set (snd (create emptyCmd testEnv testConfig [] [])).
         requestOf ev \<noteq> None \<and> Name (the (requestOf ev)) = '''')
   \<and> conf (global emptyCmd) = testConfig
   \<and> snd (Run emptyCmd testEnv [] []) = snd (create emptyCmd testEnv testConfig [] [])
   \<and> (\<exists>rest. snd (Run emptyCmd testEnv [] [])
         = GetInstanceServerEv ''local'' None # rest)
   \<and> (\<exists>ev\<in>set (snd (Run emptyCmd testEnv [] [])).
         requestOf ev \<noteq> None \<and> Name (the (requestOf ev)) = '''')"
proof -
  from zero_arguments_runs(7) obtain ev req
    where ev: "ev \<in> set (snd (create emptyCmd testEnv testConfig [] []))"
      and req: "requestOf ev = Some req"
    by auto
  note inst = zero_arguments [where c = emptyCmd and cf = testConfig and rem = "''local''"
      and nm = "''''" and E = testEnv and h = "[]" and sd = testStdin and ?w0.0 = "[]"
      and remR = "''local''" and nmR = "''''" and sdR = testStdin and wR = "[]"]
  from inst zero_arguments_runs emptyCmd_conf ev req
  have nm: "Name req = ''''"
    and first: "\<exists>rest. snd (create emptyCmd testEnv testConfig [] [])
          = GetInstanceServerEv ''local'' None # rest"
    by auto
  from inst zero_arguments_runs emptyCmd_conf
  have tr: "snd (Run emptyCmd testEnv [] []) = snd (create emptyCmd testEnv testConfig [] [])"
    by simp
  from inst zero_arguments_runs emptyCmd_conf
  have firstR: "\<exists>rest. snd (Run emptyCmd testEnv [] [])
          = GetInstanceServerEv ''local'' None # rest"
    by simp
  from ev tr have evR: "ev \<in> set (snd (Run emptyCmd testEnv [] []))" by simp
  from inst zero_arguments_runs emptyCmd_conf evR req have nmR: "Name req = ''''" by auto
  from nm first tr firstR ev evR req
    zero_arguments [where c = testCmd and E = testEnv and h = "[]"] zero_arguments_runs
    emptyCmd_conf
  show ?thesis by auto
qed

section \<open>The streaming-catalog fast path\<close>

lemma finishEvent_reads:
  "finishEvent ev \<Longrightarrow> \<not> isImageLookup ev \<and> requestOf ev = None"
  by (cases ev) auto

lemma fast_path_run:
  assumes "protocolOf cf iremote = ''simplestreams''"
    and "bindE (if iremote = remote then returnE d else GetImageServer E iremote) (\<lambda>imgRemote.
         let img = (if img1 = '''' then ''default'' else img1) in
         bindE (imageInfo E cf imgRemote iremote img req0) (\<lambda>(imgInfo, req).
         bindE (CreateInstanceFromImage E d imgRemote imgInfo req) (\<lambda>_.
         bindE (AddHandler E) (\<lambda>_.
         bindE (CancelableWait E) (\<lambda>_.
         GetTarget E))))) h = (r, w)"
  shows "(\<forall>ev\<in>set w. \<not> isImageLookup ev
            \<and> (requestOf ev \<noteq> None \<longrightarrow>
                (\<exists>res. ev = CreateInstanceFromImageEv d
                   (if iremote = remote then d else ImageServer iremote)
                   \<lparr>Fingerprint = (if img1 = '''' then ''default'' else img1), Public = True\<rparr>
                   (req0\<lparr>Source := (Source req0)
                      \<lparr>Alias := (if img1 = '''' then ''default'' else img1)\<rparr>\<rparr>) res)))
     \<and> (iremote = remote \<or> getImageServer E h iremote = None \<longrightarrow>
          (\<exists>ev\<in>set w. requestOf ev \<noteq> None))"
proof -
  define tok where "tok = (if img1 = '''' then ''default'' else img1)"
  define srv where "srv = (if iremote = remote then d else ImageServer iremote)"
  define img where "img = \<lparr>Fingerprint = tok, Public = True\<rparr>"
  define req where "req = req0\<lparr>Source := (Source req0)\<lparr>Alias := tok\<rparr>\<rparr>"
  let ?tail = "\<lambda>imgRemote. bindE (CreateInstanceFromImage E d imgRemote img req) (\<lambda>_.
         bindE (AddHandler E) (\<lambda>_.
         bindE (CancelableWait E) (\<lambda>_.
         GetTarget E)))"
  have info: "imageInfo E cf imgRemote iremote tok req0 = returnE (img, req)" for imgRemote
    using assms(1) by (simp add: imageInfo_def img_def req_def)
  have ret: "bindE (returnE x) f = f x" for x :: "Image \<times> InstancesPost"
    and f :: "_ \<Rightarrow> Operation prog"
    by (rule ext) (simp add: bindE_returnE)
  from assms(2) have run: "bindE (if iremote = remote then returnE d else GetImageServer E iremote)
      ?tail h = (r, w)"
    unfolding tok_def [symmetric] Let_def info ret prod.case .
  have "(\<forall>ev\<in>set w. \<not> isImageLookup ev
            \<and> (requestOf ev \<noteq> None \<longrightarrow> (\<exists>res. ev = CreateInstanceFromImageEv d srv img req res)))
     \<and> (iremote = remote \<or> getImageServer E h iremote = None \<longrightarrow>
          (\<exists>ev\<in>set w. requestOf ev \<noteq> None))"
    using run
  proof (cases rule: bindE_cases)
    case (err e)
    then show ?thesis
      by (auto simp: GetImageServer_def returnE_def Let_def split: if_splits option.splits)
  next
    case (ok imgRemote w1 w2)
    from ok(1) have ir: "imgRemote = srv"
      and w1: "w1 = (if iremote = remote then [] else [GetImageServerEv iremote None])"
      by (auto simp: srv_def GetImageServer_def returnE_def Let_def
          split: if_splits option.splits)
    from waitForOperation_run [OF ok(2)]
    obtain res rest
      where w2: "w2 = CreateInstanceFromImageEv d imgRemote img req res # rest"
        and rest: "\<forall>ev\<in>set rest. \<not> isImageLookup ev \<and> requestOf ev = None"
      by blast
    from ok(3) w1 w2 rest ir show ?thesis
      by (auto split: if_splits)
  qed
  then show ?thesis
    unfolding tok_def srv_def img_def req_def .
qed


lemma guessImage_lookups:
  assumes "guessImage E cf d remote iremote img h = (r, w)"
  shows "\<forall>ev\<in>set w. isImageLookup ev \<longrightarrow>
      (\<exists>res. ev = GetImageAliasEv d img res) \<or> (\<exists>res. ev = GetImageEv d img res)"
  using assms unfolding guessImage_def Let_def
  by (auto simp: prog_defs Let_def split: option.splits sum.splits if_splits)

text \<open>
  Claim C7. For a creation from an image (no empty-instance flag), let \<open>guessImage\<close>
  have returned the image remote \<open>iremote\<close> and the token \<open>img1\<close>, and let \<open>iremote\<close>
  use the \<open>simplestreams\<close> protocol. Then after \<open>guessImage\<close> no alias or fingerprint
  lookup is made at all; every creation call in the trace goes to the target server
  with the image server of \<open>iremote\<close>, an image marked public whose fingerprint is the
  token (\<open>default\<close> for the empty token), and the prepared request with its source alias
  set to that token; and the call is made as soon as the image server is the target
  server or connecting to it succeeds. The only lookups of the whole run are the probes
  of \<open>guessImage\<close> itself, which ask the target server \<open>d\<close> about the token as typed, so
  a separate image server is never asked.
\<close>

theorem simplestreams_fast_path:
  assumes "\<not> flagEmpty c"
    and "prepare c E cf args h = (Inr (d, remote, iremote0, img0, name, req0), w0)"
    and "guessImage E cf d remote iremote0 img0 (h @ w0) = (Inr (iremote, img1), w1)"
    and "protocolOf cf iremote = ''simplestreams''"
    and "create c E cf args h = (r, evs)"
  shows "(\<forall>ev\<in>set w0. \<not> isImageLookup ev)
     \<and> (\<forall>ev\<in>set w1. isImageLookup ev \<longrightarrow>
            (\<exists>res. ev = GetImageAliasEv d img0 res) \<or> (\<exists>res. ev = GetImageEv d img0 res))
     \<and> (\<exists>rest. evs = w0 @ w1 @ rest
     \<and> (\<forall>ev\<in>set rest. \<not> isImageLookup ev
            \<and> (requestOf ev \<noteq> None \<longrightarrow>
                (\<exists>res. ev = CreateInstanceFromImageEv d
                   (if iremote = remote then d else ImageServer iremote)
                   \<lparr>Fingerprint = (if img1 = '''' then ''default'' else img1), Public = True\<rparr>
                   (req0\<lparr>Source := (Source req0)
                      \<lparr>Alias := (if img1 = '''' then ''default'' else img1)\<rparr>\<rparr>) res)))
     \<and> (iremote = remote \<or> getImageServer E (h @ w0 @ w1) iremote = None \<longrightarrow>
          (\<exists>ev\<in>set rest. requestOf ev \<noteq> None)))"
proof -
  define call where "call = (\<lambda>res. CreateInstanceFromImageEv d
                   (if iremote = remote then d else ImageServer iremote)
                   \<lparr>Fingerprint = (if img1 = '''' then ''default'' else img1), Public = True\<rparr>
                   (req0\<lparr>Source := (Source req0)
                      \<lparr>Alias := (if img1 = '''' then ''default'' else img1)\<rparr>\<rparr>) res)"
  define P where "P rest \<longleftrightarrow>
       (\<forall>ev\<in>set rest. \<not> isImageLookup ev \<and> (requestOf ev \<noteq> None \<longrightarrow> (\<exists>res. ev = call res)))
     \<and> (iremote = remote \<or> getImageServer E (h @ w0 @ w1) iremote = None \<longrightarrow>
          (\<exists>ev\<in>set rest. requestOf ev \<noteq> None))" for rest
  have extend: "P (wY @ w2)"
    if "P wY" and "\<forall>ev\<in>set w2. \<not> isImageLookup ev \<and> requestOf ev = None" for wY w2
    using that unfolding P_def by auto
  have submit: "\<exists>wY. wS = w1 @ wY \<and> P wY"
    if "createFromImage E cf d remote iremote0 img0 req0 (h @ w0) = (rS, wS)" for rS wS
    using that [unfolded createFromImage_def]
  proof (cases rule: bindE_cases)
    case (err e)
    with assms(3) show ?thesis by simp
  next
    case (ok x wa wb)
    with assms(3) have x: "x = (iremote, img1)" and wa: "wa = w1" by simp_all
    from ok(2) have "bindE (if iremote = remote then returnE d else GetImageServer E iremote)
        (\<lambda>imgRemote.
         let img = (if img1 = '''' then ''default'' else img1) in
         bindE (imageInfo E cf imgRemote iremote img req0) (\<lambda>(imgInfo, req).
         bindE (CreateInstanceFromImage E d imgRemote imgInfo req) (\<lambda>_.
         bindE (AddHandler E) (\<lambda>_.
         bindE (CancelableWait E) (\<lambda>_.
         GetTarget E))))) (h @ w0 @ w1) = (rS, wb)"
      unfolding x wa by simp
    from fast_path_run [OF assms(4) this] have "P wb"
      unfolding P_def call_def .
    with ok(3) wa show ?thesis by blast
  qed
  have "\<exists>rest. evs = w0 @ w1 @ rest \<and> P rest"
    using assms(5)
  proof (cases rule: create_cases)
    case (prepare_failed e)
    with assms(2) show ?thesis by simp
  next
    case (submit_failed d' remote' iremote' img' name' req' w0' e w1')
    with assms(1,2) have "createFromImage E cf d remote iremote0 img0 req0 (h @ w0) = (Inl e, w1')"
      and evs: "evs = w0 @ w1'"
      by simp_all
    from submit [OF this(1)] evs show ?thesis by auto
  next
    case (submitted d' remote' iremote' img' name' req' w0' opInfo w1' w2)
    with assms(1,2)
    have "createFromImage E cf d remote iremote0 img0 req0 (h @ w0) = (Inr opInfo, w1')"
      and evs: "evs = w0 @ w1' @ w2"
      by simp_all
    from submit [OF this(1)] obtain wY where wY: "w1' = w1 @ wY" and p: "P wY"
      by blast
    from extractName_run [OF submitted(3)] finishEvent_reads
    have "\<forall>ev\<in>set w2. \<not> isImageLookup ev \<and> requestOf ev = None"
      by blast
    from extend [OF p this] evs wY show ?thesis by simp
  qed
  then have after: "\<exists>rest. evs = w0 @ w1 @ rest
     \<and> (\<forall>ev\<in>set rest. \<not> isImageLookup ev
            \<and> (requestOf ev \<noteq> None \<longrightarrow>
                (\<exists>res. ev = CreateInstanceFromImageEv d
                   (if iremote = remote then d else ImageServer iremote)
                   \<lparr>Fingerprint = (if img1 = '''' then ''default'' else img1), Public = True\<rparr>
                   (req0\<lparr>Source := (Source req0)
                      \<lparr>Alias := (if img1 = '''' then ''default'' else img1)\<rparr>\<rparr>) res)))
     \<and> (iremote = remote \<or> getImageServer E (h @ w0 @ w1) iremote = None \<longrightarrow>
          (\<exists>ev\<in>set rest. requestOf ev \<noteq> None))"
    unfolding P_def call_def .
  have before: "\<forall>ev\<in>set w0. \<not> isImageLookup ev"
    using prepare_events [OF assms(2)] prepareEvent_reads by blast
  have guess: "\<forall>ev\<in>set w1. isImageLookup ev \<longrightarrow>
      (\<exists>res. ev = GetImageAliasEv d img0 res) \<or> (\<exists>res. ev = GetImageEv d img0 res)"
    using assms(3) by (rule guessImage_lookups)
  from before guess after show ?thesis by (intro conjI)
qed


lemma fast_path_runs:
  "\<not> flagEmpty testCmd"
  "fst (prepare testCmd missingEnv testConfig [''images/focal'', ''c1''] []) =
     Inr (InstanceServer ''local'', ''local'', ''local'', ''images/focal'', ''c1'', fastReq)"
  "fst (guessImage missingEnv testConfig (InstanceServer ''local'') ''local'' ''local''
          ''images/focal''
          ([] @ snd (prepare testCmd missingEnv testConfig [''images/focal'', ''c1''] []))) =
     Inr (''images'', ''focal'')"
  "protocolOf testConfig ''images'' = ''simplestreams''"
  "getImageServer missingEnv h ''images'' = None"
  by (code_simp, code_simp, code_simp, code_simp, simp add: missingEnv_def testEnv_def)

theorem simplestreams_fast_path_witness:
  "\<not> flagEmpty testCmd
   \<and> fst (prepare testCmd missingEnv testConfig [''images/focal'', ''c1''] []) =
       Inr (InstanceServer ''local'', ''local'', ''local'', ''images/focal'', ''c1'', fastReq)
   \<and> fst (guessImage missingEnv testConfig (InstanceServer ''local'') ''local'' ''local''
          ''images/focal''
          ([] @ snd (prepare testCmd missingEnv testConfig [''images/focal'', ''c1''] []))) =
       Inr (''images'', ''focal'')
   \<and> protocolOf testConfig ''images'' = ''simplestreams''
   \<and> (\<exists>rest.
         snd (create testCmd missingEnv testConfig [''images/focal'', ''c1''] []) =
           snd (prepare testCmd missingEnv testConfig [''images/focal'', ''c1''] [])
           @ snd (guessImage missingEnv testConfig (InstanceServer ''local'') ''local'' ''local''
                   ''images/focal''
                   ([] @ snd (prepare testCmd missingEnv testConfig [''images/focal'', ''c1''] [])))
           @ rest
         \<and> \<not> list_ex isImageLookup rest
         \<and> (\<exists>res. CreateInstanceFromImageEv (InstanceServer ''local'') (ImageServer ''images'')
                     \<lparr>Fingerprint = ''focal'', Public = True\<rparr>
                     (fastReq\<lparr>Source := (Source fastReq)\<lparr>Alias := ''focal''\<rparr>\<rparr>) res
                   \<in> set rest))"
proof -
  obtain w0 where p: "prepare testCmd missingEnv testConfig [''images/focal'', ''c1''] [] =
      (Inr (InstanceServer ''local'', ''local'', ''local'', ''images/focal'', ''c1'', fastReq), w0)"
    using fast_path_runs(2)
    by (cases "prepare testCmd missingEnv testConfig [''images/focal'', ''c1''] []") simp
  obtain w1 where g: "guessImage missingEnv testConfig (InstanceServer ''local'') ''local''
      ''local'' ''images/focal'' ([] @ w0) = (Inr (''images'', ''focal''), w1)"
    using fast_path_runs(3) p
    by (cases "guessImage missingEnv testConfig (InstanceServer ''local'') ''local''
      ''local'' ''images/focal'' ([] @ w0)") simp
  obtain r evs
    where run: "create testCmd missingEnv testConfig [''images/focal'', ''c1''] [] = (r, evs)"
    by (cases "create testCmd missingEnv testConfig [''images/focal'', ''c1''] []")
  from simplestreams_fast_path [OF fast_path_runs(1) p g fast_path_runs(4) run]
    fast_path_runs(5)
  have "\<exists>rest. evs = w0 @ w1 @ rest
     \<and> (\<forall>ev\<in>set rest. \<not> isImageLookup ev
            \<and> (requestOf ev \<noteq> None \<longrightarrow>
                (\<exists>res. ev = CreateInstanceFromImageEv (InstanceServer ''local'')
                     (ImageServer ''images'') \<lparr>Fingerprint = ''focal'', Public = True\<rparr>
                     (fastReq\<lparr>Source := (Source fastReq)\<lparr>Alias := ''focal''\<rparr>\<rparr>) res)))
     \<and> (\<exists>ev\<in>set rest. requestOf ev \<noteq> None)"
    by simp
  then obtain rest where evs: "evs = w0 @ w1 @ rest"
    and props: "\<forall>ev\<in>set rest. \<not> isImageLookup ev
            \<and> (requestOf ev \<noteq> None \<longrightarrow>
                (\<exists>res. ev = CreateInstanceFromImageEv (InstanceServer ''local'')
                     (ImageServer ''images'') \<lparr>Fingerprint = ''focal'', Public = True\<rparr>
                     (fastReq\<lparr>Source := (Source fastReq)\<lparr>Alias := ''focal''\<rparr>\<rparr>) res))"
    and made: "\<exists>ev\<in>set rest. requestOf ev \<noteq> None"
    by (elim exE conjE)
  from props have lookups: "\<forall>ev\<in>set rest. \<not> isImageLookup ev"
    and calls: "\<forall>ev\<in>set rest. requestOf ev \<noteq> None \<longrightarrow>
        (\<exists>res. ev = CreateInstanceFromImageEv (InstanceServer ''local'') (ImageServer ''images'')
                     \<lparr>Fingerprint = ''focal'', Public = True\<rparr>
                     (fastReq\<lparr>Source := (Source fastReq)\<lparr>Alias := ''focal''\<rparr>\<rparr>) res)"
    by blast+
  from made calls
  have "\<exists>res. CreateInstanceFromImageEv (InstanceServer ''local'') (ImageServer ''images'')
                     \<lparr>Fingerprint = ''focal'', Public = True\<rparr>
                     (fastReq\<lparr>Source := (Source fastReq)\<lparr>Alias := ''focal''\<rparr>\<rparr>) res
                   \<in> set rest"
    by blast
  moreover from lookups have "\<not> list_ex isImageLookup rest"
    by (simp add: list_ex_iff)
  ultimately show ?thesis
    using fast_path_runs(1,2,3,4) p g run evs by auto
qed

section \<open>Malformed config flags\<close>









end
